theory Spec2Isabelle
  imports Complex_Main "HOL-Library.Sublist" "HOL-Library.AList"
begin

section \<open>Data model of server.js\<close>

text \<open>
  The job status enum \<^verbatim>\<open>JobStatus\<close> (server.js, lines 39-45).
\<close>

datatype JobStatus = QUEUED | DOWNLOADING | CONVERTING | READY | ERROR

type_synonym job_id = string
type_synonym path = string

text \<open>
  Values produced by \<^verbatim>\<open>JSON.parse\<close>. A JavaScript number is an IEEE double; it is
  represented by the rational number it denotes (infinities and NaN do not occur in a
  parsed value). The arithmetic on doubles that the server does is modelled with its
  rounding, see \<open>js_times_07\<close> below.
\<close>

datatype json =
    JNull
  | JBool bool
  | JNum rat
  | JStr string
  | JArr "json list"
  | JObj "(string \<times> json) list"

text \<open>The object resolved by \<^verbatim>\<open>getVideoMetadata\<close> (lines 91-97).\<close>

record video_metadata =
  title :: json
  thumbnail :: json
  duration :: json
  uploader :: json
  view_count :: json

text \<open>
  The job object built by the prepare handler (lines 250-259); \<^verbatim>\<open>completedAt\<close> is added
  by the close handler (line 198). Dates are milliseconds since the epoch.
\<close>

record job =
  job_id :: job_id
  url :: string
  metadata :: video_metadata
  status :: JobStatus
  progress :: rat
  createdAt :: int
  outputPath :: "path option"
  error :: "string option"
  completedAt :: "int option"

text \<open>
  \<^verbatim>\<open>const jobs = new Map()\<close> (line 32): an insertion-ordered association list with distinct
  keys. \<^verbatim>\<open>jobs.get\<close> is \<^const>\<open>map_of\<close>, \<^verbatim>\<open>jobs.set\<close> is \<^const>\<open>AList.update\<close> (an
  existing key keeps its position, a new one is appended), \<^verbatim>\<open>jobs.delete\<close> is
  \<^const>\<open>AList.delete\<close>.
\<close>

type_synonym registry = "(job_id \<times> job) list"

text \<open>
  The part of the file system the server looks at: the paths that exist. A path holds a
  file that can be read, with its contents, or something that exists and cannot be opened
  for reading (a directory, a file without read permission); \<^verbatim>\<open>fs.existsSync\<close> is true of
  both, and \<^verbatim>\<open>fs.existsSync('')\<close> is false. A file is read to its end or fails to open;
  a read that fails after part of the contents were delivered is not distinguished.
\<close>

datatype fs_entry = Readable string | Unreadable

type_synonym filesystem = "path \<rightharpoonup> fs_entry"

definition existsSync :: "filesystem \<Rightarrow> path \<Rightarrow> bool" where
  "existsSync files p = (p \<noteq> [] \<and> files p \<noteq> None)"

section \<open>String helpers of the JavaScript runtime\<close>

definition is_digit :: "char \<Rightarrow> bool" where
  "is_digit c = (c \<in> set ''0123456789'')"

definition digit_val :: "char \<Rightarrow> nat" where
  "digit_val c = of_char c - 48"

definition digits_value :: "string \<Rightarrow> nat" where
  "digits_value ds = foldl (\<lambda>a c. 10 * a + digit_val c) 0 ds"

text \<open>
  \<^verbatim>\<open>String.prototype.includes\<close>: the second string occurs somewhere in the first.
\<close>

fun includes_str :: "string \<Rightarrow> string \<Rightarrow> bool" where
  "includes_str [] t = (t = [])"
| "includes_str (c # cs) t = (prefix t (c # cs) \<or> includes_str cs t)"

text \<open>
  \<^verbatim>\<open>String.prototype.replace\<close> with a string pattern: only the first occurrence is
  replaced. (The replacements used by the server contain no \<^verbatim>\<open>$\<close>.)
\<close>

fun replace_first :: "string \<Rightarrow> string \<Rightarrow> string \<Rightarrow> string" where
  "replace_first [] pat rep = (if pat = [] then rep else [])"
| "replace_first (c # cs) pat rep =
     (if prefix pat (c # cs) then rep @ drop (length pat) (c # cs)
      else c # replace_first cs pat rep)"

text \<open>
  A string of the model is a JavaScript string in its UTF-8 encoding (the chunks of output
  are decoded from UTF-8 by \<^verbatim>\<open>data.toString()\<close>, so they hold no lone surrogate). The
  patterns the server searches for are ASCII, and an ASCII byte never occurs inside the
  encoding of another character, so searching the bytes is searching the characters.

  \<^verbatim>\<open>String.prototype.trim\<close> removes white space and line terminators from both ends:
  the characters U+0009 to U+000D and U+0020 (one byte each), U+00A0 (bytes C2 A0), and
  U+1680, U+2000 to U+200A, U+2028, U+2029, U+202F, U+205F, U+3000 and U+FEFF (three bytes
  each).
\<close>

definition ws1 :: "char \<Rightarrow> bool" where
  "ws1 a = ((9 \<le> (of_char a :: nat) \<and> (of_char a :: nat) \<le> 13) \<or> (of_char a :: nat) = 32)"

definition ws2 :: "char \<Rightarrow> char \<Rightarrow> bool" where
  "ws2 a b = ((of_char a :: nat) = 0xC2 \<and> (of_char b :: nat) = 0xA0)"

definition ws3 :: "char \<Rightarrow> char \<Rightarrow> char \<Rightarrow> bool" where
  "ws3 a b c =
     (let x = (of_char a :: nat); y = (of_char b :: nat); z = (of_char c :: nat)
      in (x = 0xE1 \<and> y = 0x9A \<and> z = 0x80) \<or>
         (x = 0xE2 \<and> y = 0x80 \<and>
            ((0x80 \<le> z \<and> z \<le> 0x8A) \<or> z = 0xA8 \<or> z = 0xA9 \<or> z = 0xAF)) \<or>
         (x = 0xE2 \<and> y = 0x81 \<and> z = 0x9F) \<or>
         (x = 0xE3 \<and> y = 0x80 \<and> z = 0x80) \<or>
         (x = 0xEF \<and> y = 0xBB \<and> z = 0xBF))"

fun trimStart :: "string \<Rightarrow> string" where
  "trimStart (a # b # c # s) =
     (if ws1 a then trimStart (b # c # s)
      else if ws2 a b then trimStart (c # s)
      else if ws3 a b c then trimStart s
      else a # b # c # s)"
| "trimStart [a, b] = (if ws1 a then trimStart [b] else if ws2 a b then [] else [a, b])"
| "trimStart [a] = (if ws1 a then [] else [a])"
| "trimStart [] = []"

text \<open>The same from the end, on the reversed string (last byte first).\<close>

fun trimEnd_rev :: "string \<Rightarrow> string" where
  "trimEnd_rev (c # b # a # s) =
     (if ws1 c then trimEnd_rev (b # a # s)
      else if ws2 b c then trimEnd_rev (a # s)
      else if ws3 a b c then trimEnd_rev s
      else c # b # a # s)"
| "trimEnd_rev [c, b] = (if ws1 c then trimEnd_rev [b] else if ws2 b c then [] else [c, b])"
| "trimEnd_rev [c] = (if ws1 c then [] else [c])"
| "trimEnd_rev [] = []"

definition trim :: "string \<Rightarrow> string" where
  "trim s = rev (trimEnd_rev (rev (trimStart s)))"

text \<open>
  The regular expression \<^verbatim>\<open>/(\d+(?:\.\d+)?)%/\<close> tried at the head of a string; the result
  is capture group 1. \<^verbatim>\<open>\d+\<close> is greedy and giving back digits never helps: the next
  character would be a digit, which is neither a dot followed by digits nor the percent
  sign. So a match at this position exists exactly when the maximal digit run is followed by
  the percent sign, or by a dot, a maximal non-empty digit run and the percent sign.
\<close>

definition match_at :: "string \<Rightarrow> string option" where
  "match_at s =
     (let ds = takeWhile is_digit s; r = dropWhile is_digit s in
      if ds = [] then None
      else (case r of
              [] \<Rightarrow> None
            | c # r' \<Rightarrow>
                if c = CHR ''%'' then Some ds
                else if c = CHR ''.'' then
                  (let fs = takeWhile is_digit r'; r'' = dropWhile is_digit r' in
                   if fs \<noteq> [] \<and> r'' \<noteq> [] \<and> hd r'' = CHR ''%''
                   then Some (ds @ CHR ''.'' # fs) else None)
                else None))"

text \<open>
  \<^verbatim>\<open>output.match(/(\d+(?:\.\d+)?)%/)\<close>: the leftmost position with a match; the result is
  \<^verbatim>\<open>match[1]\<close>, and \<open>None\<close> stands for the \<^verbatim>\<open>null\<close> of no match.
\<close>

fun regex_match :: "string \<Rightarrow> string option" where
  "regex_match [] = None"
| "regex_match (c # cs) =
     (case match_at (c # cs) of Some m \<Rightarrow> Some m | None \<Rightarrow> regex_match cs)"

text \<open>
  IEEE double arithmetic. A positive double is a natural number of at most 53 bits times a
  power of two. Rounding a natural number to 53 significant bits, to the nearest and to
  the even one in a tie, does not depend on the power of two that scales it.
\<close>

fun bit_length :: "nat \<Rightarrow> nat" where
  "bit_length n = (if n = 0 then 0 else Suc (bit_length (n div 2)))"

declare bit_length.simps [simp del]

definition round53 :: "nat \<Rightarrow> nat" where
  "round53 p =
     (if bit_length p \<le> 53 then p
      else (let sh = bit_length p - 53; q = p div 2 ^ sh; r = p mod 2 ^ sh
            in (if 2 ^ sh < 2 * r \<or> (2 * r = 2 ^ sh \<and> odd q) then q + 1 else q) * 2 ^ sh))"

text \<open>
  The literal \<^verbatim>\<open>0.7\<close> is the double \<open>6305039478318694 / 2 ^ 53\<close> (hexadecimal
  3FE6666666666666), the nearest one to seven tenths. The product \<^verbatim>\<open>n * 0.7\<close> of a double
  \<open>n\<close> that is a natural number is the exact product rounded to a double. (Beyond the
  range of the doubles the product is Infinity where the model has a large number; the only
  caller takes the minimum with 70.)
\<close>

definition double_07 :: nat where
  "double_07 = 6305039478318694"

definition js_times_07 :: "nat \<Rightarrow> rat" where
  "js_times_07 n = of_nat (round53 (n * double_07)) / 2 ^ 53"

text \<open>
  \<^verbatim>\<open>parseInt\<close> on a string whose first character is a decimal digit: the double nearest
  to the value of the leading digit run, which is that value below \<open>2 ^ 53\<close> (a fraction is
  cut off, not rounded; with more than 20 digits an engine may round differently, to a
  number that is far above 100 in any case). On any other string the model answers \<open>None\<close>
  (JavaScript answers NaN or reads a sign, white space or a hex prefix); the only caller
  passes capture group 1, which always starts with a digit.
\<close>

definition parseInt :: "string \<Rightarrow> nat option" where
  "parseInt s =
     (let ds = takeWhile is_digit s
      in if ds = [] then None else Some (round53 (digits_value ds)))"

section \<open>The conversion orchestrator: performConversion (lines 117-228)\<close>

text \<open>
  What the closure of one \<^verbatim>\<open>performConversion\<close> call holds fixed: the job id, the
  requested format, the output path computed on entry (lines 121-122), and, read when the
  process closes, the files on disk and the clock.
\<close>

record conv_env =
  env_jobId :: job_id
  env_format :: string
  env_outputPath :: path
  env_files :: filesystem
  env_closeTime :: int

text \<open>
  What the handlers mutate: the shared registry, the job object held by the closure, the
  accumulated \<^verbatim>\<open>stderr\<close> text, and whether \<^verbatim>\<open>ytDlp.kill()\<close> has been called. In
  the source the registry holds the very object the closure holds; every handler that
  writes a field of the job also calls \<^verbatim>\<open>jobs.set(jobId, job)\<close>, which is where the
  model copies the job into the registry.
\<close>

record conversion =
  jobs :: registry
  job :: job
  stderr :: string
  killed :: bool

text \<open>
  Entry of \<^verbatim>\<open>performConversion\<close> (lines 118-128): a missing job throws, otherwise the job
  is set to downloading with progress 10.
\<close>

definition performConversion_start :: "conv_env \<Rightarrow> registry \<Rightarrow> string + conversion" where
  "performConversion_start env reg =
     (case map_of reg (env_jobId env) of
        None \<Rightarrow> Inl ''Job not found''
      | Some j0 \<Rightarrow>
          (let j = j0\<lparr>status := DOWNLOADING, progress := 10\<rparr>
           in Inr \<lparr>jobs = AList.update (env_jobId env) j reg, job = j,
                   stderr = [], killed = False\<rparr>))"

text \<open>
  The \<^verbatim>\<open>stderr\<close> data handler (lines 160-178), run once per chunk of output. The case
  of \<^const>\<open>parseInt\<close> answering \<open>None\<close> is never taken: a match starts with a digit.
  The scaled percentage is the double product of line 172; the progress values 10, 80 and
  100 and the bound 70 are doubles themselves, so minimum and maximum are exact.
\<close>

definition stderr_data :: "conv_env \<Rightarrow> string \<Rightarrow> conversion \<Rightarrow> conversion" where
  "stderr_data env output s =
     (let s1 = s\<lparr>stderr := stderr s @ output\<rparr> in
      if includes_str output ''[download]'' then
        (let j =
           (if includes_str output ''100%'' then
              (job s1)\<lparr>status := CONVERTING, progress := 80\<rparr>
            else if includes_str output ''%'' then
              (case regex_match output of
                 None \<Rightarrow> job s1
               | Some m \<Rightarrow>
                   (case parseInt m of
                      None \<Rightarrow> job s1
                    | Some n \<Rightarrow>
                        (job s1)\<lparr>progress :=
                           max (progress (job s1)) (min 70 (js_times_07 n))\<rparr>))
            else job s1)
         in s1\<lparr>job := j, jobs := AList.update (env_jobId env) j (jobs s1)\<rparr>)
      else s1)"

text \<open>The candidate output files of the close handler (lines 183-189).\<close>

definition possibleFiles :: "path \<Rightarrow> string \<Rightarrow> path list" where
  "possibleFiles out fmt =
     [out,
      replace_first out (CHR ''.'' # fmt) ''.mp3'',
      replace_first out (CHR ''.'' # fmt) ''.mp4'',
      replace_first out (CHR ''.'' # fmt) ''.webm'',
      replace_first out (CHR ''.'' # fmt) ''.m4a'']"

text \<open>
  The close handler (lines 180-217). The exit code is \<open>None\<close> when the process was ended by
  a signal (\<^verbatim>\<open>code\<close> is then \<^verbatim>\<open>null\<close>).
\<close>

definition close_handler :: "conv_env \<Rightarrow> int option \<Rightarrow> conversion \<Rightarrow> conversion" where
  "close_handler env code s =
     (let j =
        (if code = Some 0 then
           (case find (existsSync (env_files env))
                   (possibleFiles (env_outputPath env) (env_format env)) of
              Some actualFile \<Rightarrow>
                (job s)\<lparr>status := READY, progress := 100,
                        outputPath := Some actualFile,
                        completedAt := Some (env_closeTime env)\<rparr>
            | None \<Rightarrow>
                (job s)\<lparr>status := ERROR, error := Some ''Output file not generated''\<rparr>)
         else
           (job s)\<lparr>status := ERROR,
                   error := Some (if trim (stderr s) = [] then ''Unknown conversion error''
                                  else trim (stderr s))\<rparr>)
      in s\<lparr>job := j, jobs := AList.update (env_jobId env) j (jobs s)\<rparr>)"

text \<open>
  The timer callback (lines 220-226). The timer is set when the conversion starts and is
  never cleared.
\<close>

definition timeout_handler :: "conv_env \<Rightarrow> conversion \<Rightarrow> conversion" where
  "timeout_handler env s =
     (let j = (job s)\<lparr>status := ERROR, error := Some ''Conversion timeout''\<rparr>
      in s\<lparr>killed := True, job := j, jobs := AList.update (env_jobId env) j (jobs s)\<rparr>)"

text \<open>
  The callbacks that run during one conversion, in the order the event loop runs them.
\<close>

datatype event = Stderr string | Close "int option" | Timeout

fun step :: "conv_env \<Rightarrow> conversion \<Rightarrow> event \<Rightarrow> conversion" where
  "step env s (Stderr output) = stderr_data env output s"
| "step env s (Close code) = close_handler env code s"
| "step env s Timeout = timeout_handler env s"

definition run :: "conv_env \<Rightarrow> conversion \<Rightarrow> event list \<Rightarrow> conversion" where
  "run env s es = foldl (step env) s es"

text \<open>
  The event orders Node.js can produce for one child process and one timer: output arrives
  only before the close event, the process closes at most once, and the timer fires at most
  once, before or after the close. The flag says whether the timer has fired already.
\<close>

fun wf_trace :: "bool \<Rightarrow> event list \<Rightarrow> bool" where
  "wf_trace fired [] = True"
| "wf_trace fired (Stderr output # es) = wf_trace fired es"
| "wf_trace fired (Timeout # es) = (\<not> fired \<and> wf_trace True es)"
| "wf_trace fired (Close code # es) = (es = [] \<or> (\<not> fired \<and> es = [Timeout]))"

text \<open>
  The timer delay of line 226, in milliseconds, and the order of the callbacks when the
  events of the child process carry the time (milliseconds since the start) at which they
  arrive: the timer callback runs once the delay has passed, whatever happened before.
\<close>

definition conversion_timeout_ms :: nat where
  "conversion_timeout_ms = 600000"

fun schedule :: "(nat \<times> event) list \<Rightarrow> event list" where
  "schedule [] = [Timeout]"
| "schedule ((t, e) # tes) =
     (if t < conversion_timeout_ms then e # schedule tes else Timeout # e # map snd tes)"

text \<open>A job and a conversion used to evaluate the handlers on concrete input.\<close>

definition sample_job :: job where
  "sample_job =
     \<lparr>job_id = ''j1'', url = ''https://youtu.be/abc'',
      metadata = \<lparr>title = JStr ''Clip'', thumbnail = JNull, duration = JNum 596,
                  uploader = JStr ''Unknown'', view_count = JNull\<rparr>,
      status = QUEUED, progress = 0, createdAt = 1000, outputPath = None, error = None,
      completedAt = None\<rparr>"

definition sample_env :: conv_env where
  "sample_env =
     \<lparr>env_jobId = ''j1'', env_format = ''mp4'', env_outputPath = ''temp/Clip_1000.mp4'',
      env_files = [''temp/Clip_1000.webm'' \<mapsto> Readable ''bytes''],
      env_closeTime = 61000\<rparr>"

definition sample_start :: conversion where
  "sample_start =
     (let j = sample_job\<lparr>status := DOWNLOADING, progress := 10\<rparr>
      in \<lparr>jobs = [(''j1'', j)], job = j, stderr = [], killed = False\<rparr>)"

section \<open>The request handlers on the registry and the files\<close>

text \<open>
  What the handlers of lines 233-396 share: the registry, the files on disk, and the
  timers set by finished downloads and not yet run (job id and file path of each).
\<close>

record server =
  srv_jobs :: registry
  srv_files :: filesystem
  srv_timers :: "(job_id \<times> path) list"

text \<open>
  The answers: \<^verbatim>\<open>res.status(code).json({error: msg})\<close>, the answers of the prepare and
  the convert handler, a file streamed under a file name, and the answer of the cleanup
  handler with its count.
\<close>

datatype response =
    ErrorJson nat string
  | PrepareOk job_id video_metadata
  | ConvertOk job_id
  | FileStream string string
  | CleanupOk nat

text \<open>
  The convert handler (lines 278-312). The job id and the format of the request body are
  those of the closure to be; an empty job id is falsy. The handler looks at nothing else
  of the job: a job that is being converted, or was, is started again.
  \<^verbatim>\<open>performConversion\<close> runs in the background and its rejection is only logged, so the
  answer does not depend on it.
\<close>

definition convert :: "conv_env \<Rightarrow> registry \<Rightarrow> response \<times> conversion option" where
  "convert env reg =
     (if env_jobId env = [] \<or> map_of reg (env_jobId env) = None then
        (ErrorJson 404 ''Job not found'', None)
      else if env_format env \<notin> set [''mp3'', ''mp4''] then
        (ErrorJson 400 ''Invalid format. Use mp3 or mp4'', None)
      else
        (case performConversion_start env reg of
           Inl msg \<Rightarrow> (ConvertOk (env_jobId env), None)
         | Inr s \<Rightarrow> (ConvertOk (env_jobId env), Some s)))"

text \<open>\<^verbatim>\<open>path.basename\<close> of a path that does not end in a slash.\<close>

definition basename :: "path \<Rightarrow> string" where
  "basename p = rev (takeWhile (\<lambda>c. c \<noteq> CHR ''/'') (rev p))"

text \<open>
  The download handler (lines 342-378). A \<^verbatim>\<open>null\<close> or empty \<^verbatim>\<open>outputPath\<close> is falsy.
  When the file is read to its end, the handler of the end event (lines 366-372) sets the
  timer of the deferred deletion. When the stream fails, the handler of its error event
  (lines 374-377) answers with status 500 and no timer is set. The innermost \<open>None\<close> case
  cannot occur after the \<^const>\<open>existsSync\<close> test.
\<close>

definition download :: "job_id \<Rightarrow> server \<Rightarrow> response \<times> server" where
  "download jobId srv =
     (case map_of (srv_jobs srv) jobId of
        None \<Rightarrow> (ErrorJson 404 ''File not ready for download'', srv)
      | Some j \<Rightarrow>
          (case outputPath j of
             None \<Rightarrow> (ErrorJson 404 ''File not ready for download'', srv)
           | Some filePath \<Rightarrow>
               if filePath = [] \<or> status j \<noteq> READY then
                 (ErrorJson 404 ''File not ready for download'', srv)
               else if \<not> existsSync (srv_files srv) filePath then
                 (ErrorJson 404 ''File not found'', srv)
               else
                 (case srv_files srv filePath of
                    None \<Rightarrow> (ErrorJson 404 ''File not found'', srv)
                  | Some Unreadable \<Rightarrow> (ErrorJson 500 ''Download failed'', srv)
                  | Some (Readable bytes) \<Rightarrow>
                      (FileStream (basename filePath) bytes,
                       srv\<lparr>srv_timers := srv_timers srv @ [(jobId, filePath)]\<rparr>))))"

text \<open>
  The timer callback of lines 367-371, five seconds after the stream ended:
  \<^verbatim>\<open>fs.remove\<close> (which accepts a missing file) and \<^verbatim>\<open>jobs.delete\<close>.
\<close>

definition download_cleanup :: "job_id \<Rightarrow> path \<Rightarrow> server \<Rightarrow> server" where
  "download_cleanup jobId filePath srv =
     srv\<lparr>srv_files := (srv_files srv)(filePath := None),
         srv_jobs := AList.delete jobId (srv_jobs srv),
         srv_timers := remove1 (jobId, filePath) (srv_timers srv)\<rparr>"

text \<open>
  The loop of the cleanup handler (lines 385-393) over the entries of the registry, with
  the cutoff date and the running count \<^verbatim>\<open>cleanedJobs\<close>.
\<close>

fun sweep_loop :: "int \<Rightarrow> (job_id \<times> job) list \<Rightarrow> server \<times> nat \<Rightarrow> server \<times> nat" where
  "sweep_loop cutoff [] acc = acc"
| "sweep_loop cutoff ((jobId, j) # rest) (srv, cleanedJobs) =
     (if createdAt j < cutoff then
        sweep_loop cutoff rest
          (srv\<lparr>srv_files :=
                 (case outputPath j of
                    None \<Rightarrow> srv_files srv
                  | Some p \<Rightarrow>
                      if p \<noteq> [] \<and> existsSync (srv_files srv) p
                      then (srv_files srv)(p := None) else srv_files srv),
               srv_jobs := AList.delete jobId (srv_jobs srv)\<rparr>,
           cleanedJobs + 1)
      else sweep_loop cutoff rest (srv, cleanedJobs))"

text \<open>
  The sweep for a maximal age in milliseconds: the cutoff is \<^verbatim>\<open>Date.now() - maxAge\<close>. The
  handler of \<^verbatim>\<open>POST /api/cleanup\<close> (lines 381-396) is the sweep at one hour (line 382).
\<close>

definition sweep :: "int \<Rightarrow> int \<Rightarrow> server \<Rightarrow> server \<times> nat" where
  "sweep maxAge now srv = sweep_loop (now - maxAge) (srv_jobs srv) (srv, 0)"


section \<open>The metadata fetcher: getVideoMetadata (lines 67-114)\<close>

text \<open>JavaScript truthiness of a parsed JSON value.\<close>

fun truthy :: "json \<Rightarrow> bool" where
  "truthy JNull = False"
| "truthy (JBool b) = b"
| "truthy (JNum x) = (x \<noteq> 0)"
| "truthy (JStr s) = (s \<noteq> [])"
| "truthy (JArr xs) = True"
| "truthy (JObj kvs) = True"

text \<open>
  Reading a property by name, for the names the fetcher reads (none of them is a property
  of a string, an array, a number or a boolean), and reading index 0; \<open>None\<close> stands for
  \<^verbatim>\<open>undefined\<close>. Reading a property of \<^verbatim>\<open>null\<close> throws; the callers test for it first.
\<close>

fun get_prop :: "json \<Rightarrow> string \<Rightarrow> json option" where
  "get_prop (JObj kvs) k = map_of kvs k"
| "get_prop v k = None"

fun get_index0 :: "json \<Rightarrow> json option" where
  "get_index0 (JArr (x # xs)) = Some x"
| "get_index0 (JStr (c # cs)) = Some (JStr [c])"
| "get_index0 (JObj kvs) = map_of kvs ''0''"
| "get_index0 v = None"

text \<open>The operator \<^verbatim>\<open>a || b\<close> with a left operand that may be undefined.\<close>

definition js_or :: "json option \<Rightarrow> json \<Rightarrow> json" where
  "js_or a b = (case a of None \<Rightarrow> b | Some v \<Rightarrow> if truthy v then v else b)"

text \<open>\<^verbatim>\<open>metadata.thumbnails?.[0]?.url\<close> (line 93).\<close>

definition first_thumbnail_url :: "json \<Rightarrow> json option" where
  "first_thumbnail_url md =
     (case get_prop md ''thumbnails'' of
        None \<Rightarrow> None
      | Some t \<Rightarrow>
          if t = JNull then None
          else (case get_index0 t of
                  None \<Rightarrow> None
                | Some x \<Rightarrow> if x = JNull then None else get_prop x ''url''))"

text \<open>
  The object built in lines 91-97 from the parsed output; \<open>None\<close> is the TypeError thrown
  when the parsed value is \<^verbatim>\<open>null\<close>.
\<close>

definition normalize_metadata :: "json \<Rightarrow> video_metadata option" where
  "normalize_metadata md =
     (if md = JNull then None
      else Some
        \<lparr>title = js_or (get_prop md ''title'') (JStr ''Unknown Title''),
         thumbnail = js_or (get_prop md ''thumbnail'') (js_or (first_thumbnail_url md) JNull),
         duration = js_or (get_prop md ''duration'') JNull,
         uploader = js_or (get_prop md ''uploader'') (JStr ''Unknown''),
         view_count = js_or (get_prop md ''view_count'') JNull\<rparr>)"

text \<open>
  The promise returned by \<^verbatim>\<open>getVideoMetadata\<close>. Resolving or rejecting a promise that is
  settled already has no effect.
\<close>

datatype promise = Pending | Resolved video_metadata | Rejected string

definition settle :: "promise \<Rightarrow> promise \<Rightarrow> promise" where
  "settle p outcome = (if p = Pending then outcome else p)"

record fetch =
  f_stdout :: string
  f_stderr :: string
  f_killed :: bool
  f_promise :: promise

datatype fetch_event = FStdout string | FStderr string | FClose "int option" | FTimeout

definition fetch_init :: fetch where
  "fetch_init = \<lparr>f_stdout = [], f_stderr = [], f_killed = False, f_promise = Pending\<rparr>"

text \<open>
  The close handler (lines 87-106). \<^verbatim>\<open>JSON.parse\<close> is a parameter; \<open>None\<close> is its
  SyntaxError.
\<close>

definition fetch_close :: "(string \<Rightarrow> json option) \<Rightarrow> int option \<Rightarrow> fetch \<Rightarrow> fetch" where
  "fetch_close parse code f =
     f\<lparr>f_promise := settle (f_promise f)
        (if code = Some 0 then
           (case parse (trim (f_stdout f)) of
              None \<Rightarrow> Rejected ''Failed to parse video metadata''
            | Some md \<Rightarrow>
                (case normalize_metadata md of
                   None \<Rightarrow> Rejected ''Failed to parse video metadata''
                 | Some m \<Rightarrow> Resolved m))
         else Rejected (''Failed to fetch metadata: '' @ trim (f_stderr f)))\<rparr>"

text \<open>The timer callback (lines 109-112), thirty seconds after the start.\<close>

definition fetch_timeout :: "fetch \<Rightarrow> fetch" where
  "fetch_timeout f =
     f\<lparr>f_killed := True, f_promise := settle (f_promise f) (Rejected ''Metadata fetch timeout'')\<rparr>"

fun fetch_step :: "(string \<Rightarrow> json option) \<Rightarrow> fetch \<Rightarrow> fetch_event \<Rightarrow> fetch" where
  "fetch_step parse f (FStdout d) = f\<lparr>f_stdout := f_stdout f @ d\<rparr>"
| "fetch_step parse f (FStderr d) = f\<lparr>f_stderr := f_stderr f @ d\<rparr>"
| "fetch_step parse f (FClose code) = fetch_close parse code f"
| "fetch_step parse f FTimeout = fetch_timeout f"

text \<open>
  One call of \<^verbatim>\<open>getVideoMetadata\<close>: the process is spawned once and the callbacks run in
  the order of the events.
\<close>

definition getVideoMetadata :: "(string \<Rightarrow> json option) \<Rightarrow> fetch_event list \<Rightarrow> fetch" where
  "getVideoMetadata parse es = foldl (fetch_step parse) fetch_init es"

fun is_data :: "fetch_event \<Rightarrow> bool" where
  "is_data (FStdout d) = True"
| "is_data (FStderr d) = True"
| "is_data e = False"

text \<open>The output of the probe process on each of its two streams, chunk after chunk.\<close>

fun stdout_text :: "fetch_event list \<Rightarrow> string" where
  "stdout_text [] = []"
| "stdout_text (FStdout d # es) = d @ stdout_text es"
| "stdout_text (e # es) = stdout_text es"

fun stderr_text :: "fetch_event list \<Rightarrow> string" where
  "stderr_text [] = []"
| "stderr_text (FStderr d # es) = d @ stderr_text es"
| "stderr_text (e # es) = stderr_text es"

text \<open>
  The timer delay of line 112, in milliseconds, and the order of the callbacks when the
  events of the probe process carry the time at which they arrive.
\<close>

definition metadata_timeout_ms :: nat where
  "metadata_timeout_ms = 30000"

fun fetch_schedule :: "(nat \<times> fetch_event) list \<Rightarrow> fetch_event list" where
  "fetch_schedule [] = [FTimeout]"
| "fetch_schedule ((t, e) # tes) =
     (if t < metadata_timeout_ms then e # fetch_schedule tes else FTimeout # e # map snd tes)"

section \<open>The prepare handler (lines 233-275)\<close>

definition strip_prefix :: "string \<Rightarrow> string \<Rightarrow> string option" where
  "strip_prefix p s = (if prefix p s then Some (drop (length p) s) else None)"

definition optional_prefix :: "string \<Rightarrow> string \<Rightarrow> string" where
  "optional_prefix p s = (if prefix p s then drop (length p) s else s)"

text \<open>The class \<^verbatim>\<open>\w\<close>: letters, digits and the underscore.\<close>

definition is_word :: "char \<Rightarrow> bool" where
  "is_word c =
     (let n = (of_char c :: nat)
      in (48 \<le> n \<and> n \<le> 57) \<or> (65 \<le> n \<and> n \<le> 90) \<or> (97 \<le> n \<and> n \<le> 122) \<or> n = 95)"

text \<open>
  \<^verbatim>\<open>isValidYouTubeUrl\<close> (lines 48-54): both patterns are anchored at the start, so they are
  read off the head of the string. Skipping an optional part that is present never helps:
  what follows \<^verbatim>\<open>s?\<close> starts with a colon and what follows \<^verbatim>\<open>(www\.)?\<close> starts with
  the letter y.
\<close>

definition isValidYouTubeUrl :: "string \<Rightarrow> bool" where
  "isValidYouTubeUrl u =
     (case strip_prefix ''http'' u of
        None \<Rightarrow> False
      | Some r0 \<Rightarrow>
          (case strip_prefix ''://'' (optional_prefix ''s'' r0) of
             None \<Rightarrow> False
           | Some r1 \<Rightarrow>
               list_ex
                 (\<lambda>alt. case strip_prefix alt (optional_prefix ''www.'' r1) of
                          None \<Rightarrow> False
                        | Some r2 \<Rightarrow> r2 \<noteq> [] \<and> (is_word (hd r2) \<or> hd r2 = CHR ''-''))
                 [''youtube.com/watch?v='', ''youtu.be/'', ''youtube.com/embed/'',
                  ''youtube.com/v/'', ''youtube.com/shorts/'']))"

text \<open>The job object of lines 250-259.\<close>

definition new_job :: "job_id \<Rightarrow> string \<Rightarrow> video_metadata \<Rightarrow> int \<Rightarrow> job" where
  "new_job jobId u md now =
     \<lparr>job_id = jobId, url = u, metadata = md, status = QUEUED, progress = 0,
      createdAt = now, outputPath = None, error = None, completedAt = None\<rparr>"

text \<open>
  The handler: the URL of the request body (\<open>None\<close> when it is missing), the events of the
  metadata process, the id \<^verbatim>\<open>uuidv4()\<close> would return and the clock. The answer is \<open>None\<close>
  while the promise is pending (the handler is still waiting).
\<close>

definition prepare ::
  "(string \<Rightarrow> json option) \<Rightarrow> string option \<Rightarrow> fetch_event list \<Rightarrow> job_id \<Rightarrow> int \<Rightarrow>
   server \<Rightarrow> response option \<times> server" where
  "prepare parse u es jobId now srv =
     (case u of
        None \<Rightarrow> (Some (ErrorJson 400 ''Please provide a valid YouTube URL''), srv)
      | Some ref \<Rightarrow>
          if ref = [] \<or> \<not> isValidYouTubeUrl ref then
            (Some (ErrorJson 400 ''Please provide a valid YouTube URL''), srv)
          else
            (case f_promise (getVideoMetadata parse es) of
               Pending \<Rightarrow> (None, srv)
             | Rejected msg \<Rightarrow>
                 (Some (ErrorJson 500 (''Failed to prepare conversion: '' @ msg)), srv)
             | Resolved md \<Rightarrow>
                 (Some (PrepareOk jobId md),
                  srv\<lparr>srv_jobs := AList.update jobId (new_job jobId ref md now) (srv_jobs srv)\<rparr>)))"

section \<open>Invariants and sample data\<close>

text \<open>
  What holds of the job while the process has not closed: downloading with progress from 10
  to 70, converting at 80, or failed by the timer with one of these values.
\<close>

definition pre_close :: "job \<Rightarrow> bool" where
  "pre_close j =
     ((status j = DOWNLOADING \<and> 10 \<le> progress j \<and> progress j \<le> 70) \<or>
      (status j = CONVERTING \<and> progress j = 80) \<or>
      (status j = ERROR \<and> 10 \<le> progress j \<and> (progress j \<le> 70 \<or> progress j = 80)))"

text \<open>What one callback does to the job, from the job before to the job after.\<close>

definition step_ok :: "job \<Rightarrow> event \<Rightarrow> job \<Rightarrow> bool" where
  "step_ok a e b =
     (10 \<le> progress b \<and> progress b \<le> 100 \<and> progress a \<le> progress b \<and>
      (status b = ERROR \<longrightarrow> status a \<noteq> ERROR \<longrightarrow> progress b = progress a) \<and>
      (status b = READY \<longrightarrow> progress b = 100) \<and>
      (status b = DOWNLOADING \<longrightarrow> progress b \<le> 70) \<and>
      (progress b \<le> 70 \<or> progress b = 80 \<or> progress b = 100) \<and>
      (progress a \<le> 70 \<longrightarrow> 70 < progress b \<longrightarrow> (\<forall>c. e \<noteq> Close c) \<longrightarrow>
         (\<exists>out. e = Stderr out \<and> includes_str out ''[download]'' \<and> includes_str out ''100%'')
         \<and> status b = CONVERTING \<and> progress b = 80))"

text \<open>
  Metadata as lines 91-97 leave it: a title and an uploader that are truthy, and the other
  three fields truthy or \<^verbatim>\<open>null\<close>.
\<close>

definition populated :: "video_metadata \<Rightarrow> bool" where
  "populated md =
     (truthy (title md) \<and> truthy (uploader md) \<and>
      (thumbnail md = JNull \<or> truthy (thumbnail md)) \<and>
      (duration md = JNull \<or> truthy (duration md)) \<and>
      (view_count md = JNull \<or> truthy (view_count md)))"

definition ready_job :: job where
  "ready_job =
     sample_job\<lparr>status := READY, progress := 100,
                outputPath := Some ''temp/Clip_1000.webm'', completedAt := Some 61000\<rparr>"

definition sample_server :: server where
  "sample_server =
     \<lparr>srv_jobs = [(''j1'', ready_job), (''j2'', sample_job\<lparr>job_id := ''j2'', createdAt := 7000000\<rparr>)],
      srv_files = [''temp/Clip_1000.webm'' \<mapsto> Readable ''bytes''],
      srv_timers = []\<rparr>"

text \<open>
  A stand-in for \<^verbatim>\<open>JSON.parse\<close> in the examples. It returns what \<^verbatim>\<open>JSON.parse\<close> returns for
  the three texts it accepts, and throws for every other text, as \<^verbatim>\<open>JSON.parse\<close> does for
  the text \<^verbatim>\<open>not json\<close>.
\<close>

definition sample_parse :: "string \<Rightarrow> json option" where
  "sample_parse s =
     (if s = ''{\"title\":\"Clip\"}'' then Some (JObj [(''title'', JStr ''Clip'')])
      else if s = ''42'' then Some (JNum 42)
      else if s = ''null'' then Some JNull
      else None)"

section \<open>Facts about the string helpers\<close>

lemma bit_length_numeral:
  "bit_length (numeral (Num.Bit0 k)) = Suc (bit_length (numeral k))"
  "bit_length (numeral (Num.Bit1 k)) = Suc (bit_length (numeral k))"
  "bit_length (numeral Num.One) = Suc 0"
  "bit_length 0 = 0"
  "bit_length (Suc 0) = Suc 0"
  by (subst bit_length.simps, simp add: bit_length.simps)+

lemmas double_eval = js_times_07_def round53_def double_07_def bit_length_numeral Let_def

lemma double_07_nearest: "\<bar>7 / 10 - of_nat double_07 / 2 ^ 53\<bar> < (1 / 2 ^ 54 :: rat)"
  by (simp add: double_07_def)







lemma prefix_straddle:
  assumes "prefix (d # fmt) (stem @ d # fmt)" and "d \<notin> set fmt" and "stem \<noteq> []"
  shows "prefix (d # fmt) stem"
proof -
  from assms(1) consider "prefix (d # fmt) stem"
    | us where "d # fmt = stem @ us" "prefix us (d # fmt)"
    by (auto simp: prefix_append)
  then show ?thesis
  proof cases
    case 1
    then show ?thesis .
  next
    case 2
    from assms(3) obtain c stem' where st: "stem = c # stem'" by (cases stem) auto
    with 2(1) have fmt: "fmt = stem' @ us" and "c = d" by auto
    have "us = []"
    proof (cases us)
      case Nil
      then show ?thesis .
    next
      case (Cons u us')
      with 2(2) have "u = d" by simp
      with Cons fmt assms(2) show ?thesis by simp
    qed
    with 2(1) show ?thesis by simp
  qed
qed

lemma replace_first_ext:
  "\<not> includes_str stem (d # fmt) \<Longrightarrow> d \<notin> set fmt \<Longrightarrow>
   replace_first (stem @ d # fmt) (d # fmt) rep = stem @ rep"
proof (induction stem)
  case Nil
  then show ?case by simp
next
  case (Cons c stem)
  from Cons.prems have np: "\<not> prefix (d # fmt) (c # stem)" and ni: "\<not> includes_str stem (d # fmt)"
    by simp_all
  have neg: "\<not> prefix (d # fmt) (c # (stem @ d # fmt))"
  proof
    assume "prefix (d # fmt) (c # (stem @ d # fmt))"
    then have "prefix (d # fmt) ((c # stem) @ d # fmt)"
      by (simp only: append_Cons)
    then have "prefix (d # fmt) (c # stem)"
      using Cons.prems(2) by (rule prefix_straddle) simp
    with np show False ..
  qed
  have "replace_first (c # (stem @ d # fmt)) (d # fmt) rep =
        c # replace_first (stem @ d # fmt) (d # fmt) rep"
    by (simp only: replace_first.simps neg if_False)
  with Cons.IH [OF ni Cons.prems(2)] show ?case
    by (simp only: append_Cons)
qed

lemma possibleFiles_ext:
  "\<not> includes_str stem (CHR ''.'' # fmt) \<Longrightarrow> CHR ''.'' \<notin> set fmt \<Longrightarrow>
   possibleFiles (stem @ CHR ''.'' # fmt) fmt =
     [stem @ CHR ''.'' # fmt, stem @ ''.mp3'', stem @ ''.mp4'', stem @ ''.webm'', stem @ ''.m4a'']"
  by (simp add: possibleFiles_def replace_first_ext)

section \<open>Facts about the callbacks of a conversion\<close>

lemmas sample_defs = sample_env_def sample_job_def sample_start_def

lemmas trim_eval = trim_def ws1_def ws2_def ws3_def Let_def

lemmas handler_defs = run_def stderr_data_def close_handler_def timeout_handler_def
  possibleFiles_def existsSync_def match_at_def is_digit_def parseInt_def digits_value_def
  digit_val_def double_eval trim_eval

lemma scaled_le_70: "min (70::rat) (js_times_07 n) \<le> 70"
  by simp

lemma stderr_data_fields:
  "(includes_str out ''[download]'' \<and> includes_str out ''100%'' \<and>
      status (job (stderr_data env out s)) = CONVERTING \<and>
      progress (job (stderr_data env out s)) = 80) \<or>
   (status (job (stderr_data env out s)) = status (job s) \<and>
      progress (job s) \<le> progress (job (stderr_data env out s)) \<and>
      progress (job (stderr_data env out s)) \<le> max (progress (job s)) 70)"
proof (cases "includes_str out ''[download]''")
  case False
  then show ?thesis by (simp add: stderr_data_def Let_def)
next
  case dl: True
  show ?thesis
  proof (cases "includes_str out ''100%''")
    case True
    with dl show ?thesis by (simp add: stderr_data_def Let_def)
  next
    case no100: False
    show ?thesis
    proof (cases "includes_str out ''%''")
      case False
      with dl no100 show ?thesis by (simp add: stderr_data_def Let_def)
    next
      case pc: True
      show ?thesis
      proof (cases "regex_match out")
        case None
        with dl no100 pc show ?thesis by (simp add: stderr_data_def Let_def)
      next
        case (Some m)
        show ?thesis
        proof (cases "parseInt m")
          case None
          with dl no100 pc Some show ?thesis by (simp add: stderr_data_def Let_def)
        next
          case (Some n)
          with dl no100 pc \<open>regex_match out = Some m\<close> show ?thesis
            using scaled_le_70 [of n] by (simp add: stderr_data_def Let_def max_def)
        qed
      qed
    qed
  qed
qed

lemma timeout_handler_fields:
  "status (job (timeout_handler env s)) = ERROR \<and>
   error (job (timeout_handler env s)) = Some ''Conversion timeout'' \<and>
   progress (job (timeout_handler env s)) = progress (job s) \<and>
   killed (timeout_handler env s)"
  by (simp add: timeout_handler_def Let_def)

lemma close_handler_fields:
  "(status (job (close_handler env code s)) = READY \<and>
      progress (job (close_handler env code s)) = 100) \<or>
   (status (job (close_handler env code s)) = ERROR \<and>
      progress (job (close_handler env code s)) = progress (job s))"
proof (cases "code = Some 0")
  case False
  then show ?thesis by (simp add: close_handler_def Let_def)
next
  case True
  then show ?thesis
    by (cases "find (existsSync (env_files env))
                 (possibleFiles (env_outputPath env) (env_format env))")
       (simp_all add: close_handler_def Let_def)
qed

lemma close_handler_found:
  "find (existsSync (env_files env)) (possibleFiles (env_outputPath env) (env_format env)) = Some f \<Longrightarrow>
   job (close_handler env (Some 0) s) =
     (job s)\<lparr>status := READY, progress := 100, outputPath := Some f,
             completedAt := Some (env_closeTime env)\<rparr>"
  by (simp add: close_handler_def Let_def)

lemma close_handler_missing:
  "find (existsSync (env_files env)) (possibleFiles (env_outputPath env) (env_format env)) = None \<Longrightarrow>
   job (close_handler env (Some 0) s) =
     (job s)\<lparr>status := ERROR, error := Some ''Output file not generated''\<rparr>"
  by (simp add: close_handler_def Let_def)

lemma close_handler_registry:
  "map_of (jobs (close_handler env code s)) (env_jobId env) = Some (job (close_handler env code s))"
  by (simp add: close_handler_def Let_def update_Some_unfold)

lemma pre_close_start:
  "performConversion_start env reg = Inr s0 \<Longrightarrow> pre_close (job s0)"
  by (cases "map_of reg (env_jobId env)")
     (auto simp: performConversion_start_def pre_close_def Let_def)

lemma pre_close_stderr:
  "pre_close (job s) \<Longrightarrow> pre_close (job (stderr_data env out s))"
  using stderr_data_fields [of out env s]
  unfolding pre_close_def by (elim disjE conjE) (simp_all add: max_def split: if_splits)

lemma pre_close_timeout:
  "pre_close (job s) \<Longrightarrow> pre_close (job (timeout_handler env s))"
  using timeout_handler_fields [of env s]
  unfolding pre_close_def by (elim disjE conjE) simp_all

lemma step_ok_stderr:
  "pre_close (job s) \<Longrightarrow> step_ok (job s) (Stderr out) (job (stderr_data env out s))"
  using stderr_data_fields [of out env s]
  unfolding pre_close_def step_ok_def
  by (elim disjE conjE) (simp_all add: max_def split: if_splits)

lemma step_ok_timeout:
  "pre_close (job s) \<Longrightarrow> step_ok (job s) Timeout (job (timeout_handler env s))"
  using timeout_handler_fields [of env s]
  unfolding pre_close_def step_ok_def by (elim disjE conjE) simp_all

lemma step_ok_close:
  "pre_close (job s) \<Longrightarrow> step_ok (job s) (Close code) (job (close_handler env code s))"
  using close_handler_fields [of env code s]
  unfolding pre_close_def step_ok_def by (elim disjE conjE) simp_all

lemma step_ok_close_timeout:
  "pre_close (job s) \<Longrightarrow>
   step_ok (job (close_handler env code s)) Timeout
     (job (timeout_handler env (close_handler env code s)))"
  using close_handler_fields [of env code s]
    timeout_handler_fields [of env "close_handler env code s"]
  unfolding pre_close_def step_ok_def by (elim disjE conjE) simp_all

lemma run_Cons: "run env s (e # es) = run env (step env s e) es"
  by (simp add: run_def)

lemma run_Nil: "run env s [] = s"
  by (simp add: run_def)

lemma run_snoc: "run env s (es @ [e]) = step env (run env s es) e"
  by (simp add: run_def)

lemma trace_step:
  "wf_trace fired (es @ [e]) \<Longrightarrow> pre_close (job s) \<Longrightarrow>
   step_ok (job (run env s es)) e (job (step env (run env s es) e))"
proof (induction es arbitrary: s fired)
  case Nil
  then show ?case
    by (cases e) (simp_all add: run_Nil step_ok_stderr step_ok_close step_ok_timeout)
next
  case (Cons a es)
  show ?case
  proof (cases a)
    case (Stderr out)
    with Cons.prems have "wf_trace fired (es @ [e])" by simp
    moreover from Cons.prems Stderr have "pre_close (job (step env s a))"
      by (simp add: pre_close_stderr)
    ultimately show ?thesis using Cons.IH by (simp add: run_Cons)
  next
    case (Close code)
    with Cons.prems have "es = [] \<and> e = Timeout"
      by (cases es) auto
    with Cons.prems Close show ?thesis
      by (simp add: run_Cons run_Nil step_ok_close_timeout)
  next
    case Timeout
    with Cons.prems have "wf_trace True (es @ [e])" by simp
    moreover from Cons.prems Timeout have "pre_close (job (step env s a))"
      by (simp add: pre_close_timeout)
    ultimately show ?thesis using Cons.IH by (simp add: run_Cons)
  qed
qed

lemma schedule_split:
  "schedule tes =
     map snd (takeWhile (\<lambda>(t, e). t < conversion_timeout_ms) tes) @
     Timeout # map snd (dropWhile (\<lambda>(t, e). t < conversion_timeout_ms) tes)"
proof (induction tes)
  case Nil
  then show ?case by simp
next
  case (Cons te tes)
  obtain t e where te: "te = (t, e)" by (cases te)
  with Cons show ?case by simp
qed

section \<open>Facts about the sweep\<close>


lemma sweep_loop_jobs:
  "srv_jobs (fst (sweep_loop cutoff es (srv, n))) =
     filter (\<lambda>(k, j). k \<notin> fst ` {e \<in> set es. createdAt (snd e) < cutoff}) (srv_jobs srv)"
proof (induction es arbitrary: srv n)
  case Nil
  then show ?case by simp
next
  case (Cons e es)
  obtain k j where e: "e = (k, j)" by (cases e)
  show ?case
  proof (cases "createdAt j < cutoff")
    case True
    have "{x \<in> set (e # es). createdAt (snd x) < cutoff} =
          insert (k, j) {x \<in> set es. createdAt (snd x) < cutoff}"
      using True e by auto
    with True e show ?thesis
      by (auto simp: Cons.IH AList.delete_eq case_prod_unfold intro: filter_cong)
  next
    case False
    have "{x \<in> set (e # es). createdAt (snd x) < cutoff} =
          {x \<in> set es. createdAt (snd x) < cutoff}"
      using False e by auto
    with False e show ?thesis by (simp add: Cons.IH)
  qed
qed





section \<open>Facts about the download handler\<close>

lemma download_readable:
  assumes "map_of (srv_jobs srv) jobId = Some j" "status j = READY" "outputPath j = Some p"
    "p \<noteq> []" "srv_files srv p = Some (Readable bytes)"
  shows "download jobId srv =
           (FileStream (basename p) bytes, srv\<lparr>srv_timers := srv_timers srv @ [(jobId, p)]\<rparr>)"
  using assms by (simp add: download_def existsSync_def)

lemma download_unreadable:
  assumes "map_of (srv_jobs srv) jobId = Some j" "status j = READY" "outputPath j = Some p"
    "p \<noteq> []" "srv_files srv p = Some Unreadable"
  shows "download jobId srv = (ErrorJson 500 ''Download failed'', srv)"
  using assms by (simp add: download_def existsSync_def)

lemma download_missing_file:
  assumes "map_of (srv_jobs srv) jobId = Some j" "status j = READY" "outputPath j = Some p"
    "p \<noteq> []" "srv_files srv p = None"
  shows "download jobId srv = (ErrorJson 404 ''File not found'', srv)"
  using assms by (simp add: download_def existsSync_def)

lemma download_not_ready:
  assumes "map_of (srv_jobs srv) jobId = None \<or>
           (\<exists>j. map_of (srv_jobs srv) jobId = Some j \<and>
              (outputPath j = None \<or> outputPath j = Some [] \<or> status j \<noteq> READY))"
  shows "download jobId srv = (ErrorJson 404 ''File not ready for download'', srv)"
  using assms by (auto simp: download_def split: option.splits)

text \<open>The five cases above are all the cases.\<close>

lemma download_cases:
  "map_of (srv_jobs srv) jobId = None \<or>
   (\<exists>j. map_of (srv_jobs srv) jobId = Some j \<and>
      (outputPath j = None \<or> outputPath j = Some [] \<or> status j \<noteq> READY)) \<or>
   (\<exists>j p. map_of (srv_jobs srv) jobId = Some j \<and> status j = READY \<and>
      outputPath j = Some p \<and> p \<noteq> [] \<and>
      (srv_files srv p = None \<or> srv_files srv p = Some Unreadable \<or>
       (\<exists>bytes. srv_files srv p = Some (Readable bytes))))"
proof (cases "map_of (srv_jobs srv) jobId")
  case None
  then show ?thesis by simp
next
  case (Some j)
  show ?thesis
  proof (cases "outputPath j")
    case None
    with Some show ?thesis by simp
  next
    case p: (Some p)
    show ?thesis
    proof (cases "p = [] \<or> status j \<noteq> READY")
      case True
      with Some p show ?thesis by auto
    next
      case False
      show ?thesis
      proof (cases "srv_files srv p")
        case None
        with Some p False show ?thesis by simp
      next
        case f: (Some f)
        with Some p False show ?thesis by (cases f) simp_all
      qed
    qed
  qed
qed

lemma download_stream_inv:
  assumes "download jobId srv = (FileStream name bytes, srv')"
  shows "\<exists>j p. map_of (srv_jobs srv) jobId = Some j \<and> status j = READY \<and>
           outputPath j = Some p \<and> p \<noteq> [] \<and> srv_files srv p = Some (Readable bytes) \<and>
           name = basename p \<and> srv' = srv\<lparr>srv_timers := srv_timers srv @ [(jobId, p)]\<rparr>"
  using download_cases [of srv jobId] assms
  by (elim disjE exE conjE)
     (simp_all add: download_not_ready download_missing_file download_unreadable
        download_readable)

lemma download_500_inv:
  assumes "download jobId srv = (ErrorJson 500 msg, srv')"
  shows "\<exists>j p. map_of (srv_jobs srv) jobId = Some j \<and> status j = READY \<and>
           outputPath j = Some p \<and> p \<noteq> [] \<and> srv_files srv p = Some Unreadable"
  using download_cases [of srv jobId] assms
  by (elim disjE exE conjE)
     (simp_all add: download_not_ready download_missing_file download_unreadable
        download_readable)

lemma download_error_inv:
  assumes "download jobId srv = (ErrorJson code msg, srv')"
  shows "srv' = srv \<and>
         ((code = 404 \<and> (msg = ''File not ready for download'' \<or> msg = ''File not found'')) \<or>
          (code = 500 \<and> msg = ''Download failed''))"
  using download_cases [of srv jobId] assms
  by (elim disjE exE conjE)
     (auto simp: download_not_ready download_missing_file download_unreadable
        download_readable)

lemma download_answers:
  "(\<exists>name bytes. fst (download jobId srv) = FileStream name bytes) \<or>
   (\<exists>code msg. fst (download jobId srv) = ErrorJson code msg)"
  using download_cases [of srv jobId]
  by (elim disjE exE conjE)
     (simp_all add: download_not_ready download_missing_file download_unreadable
        download_readable)

section \<open>Facts about the metadata fetcher\<close>

lemma js_or_truthy: "truthy b \<Longrightarrow> truthy (js_or a b)"
  by (simp add: js_or_def split: option.splits)

lemma js_or_null: "js_or a JNull = JNull \<or> truthy (js_or a JNull)"
  by (simp add: js_or_def split: option.splits)

lemma js_or_nested: "b = JNull \<or> truthy b \<Longrightarrow> js_or a b = JNull \<or> truthy (js_or a b)"
  by (auto simp: js_or_def split: option.splits)

lemma normalize_populated:
  assumes "normalize_metadata md = Some m"
  shows "populated m"
proof -
  from assms have m: "m =
      \<lparr>title = js_or (get_prop md ''title'') (JStr ''Unknown Title''),
       thumbnail = js_or (get_prop md ''thumbnail'') (js_or (first_thumbnail_url md) JNull),
       duration = js_or (get_prop md ''duration'') JNull,
       uploader = js_or (get_prop md ''uploader'') (JStr ''Unknown''),
       view_count = js_or (get_prop md ''view_count'') JNull\<rparr>"
    by (simp add: normalize_metadata_def split: if_splits)
  have t: "truthy (title m)" and u: "truthy (uploader m)"
    unfolding m by (simp_all add: js_or_truthy)
  have th: "thumbnail m = JNull \<or> truthy (thumbnail m)"
    unfolding m using js_or_nested [OF js_or_null] by simp
  have d: "duration m = JNull \<or> truthy (duration m)"
    unfolding m using js_or_null by simp
  have v: "view_count m = JNull \<or> truthy (view_count m)"
    unfolding m using js_or_null by simp
  from t u th d v show ?thesis unfolding populated_def by blast
qed

lemma fetch_data_keeps:
  "\<forall>e \<in> set pre. is_data e \<Longrightarrow>
   f_promise (foldl (fetch_step parse) f pre) = f_promise f \<and>
   f_killed (foldl (fetch_step parse) f pre) = f_killed f"
proof (induction pre arbitrary: f)
  case Nil
  then show ?case by simp
next
  case (Cons e pre)
  then have "is_data e" by simp
  then have "f_promise (fetch_step parse f e) = f_promise f \<and>
             f_killed (fetch_step parse f e) = f_killed f"
    by (cases e) simp_all
  with Cons show ?case by simp
qed

lemma fetch_step_settled:
  "f_promise f \<noteq> Pending \<Longrightarrow> f_promise (fetch_step parse f e) = f_promise f"
  by (cases e) (simp_all add: fetch_close_def fetch_timeout_def settle_def)

lemma fetch_settled_stays:
  "f_promise f \<noteq> Pending \<Longrightarrow> f_promise (foldl (fetch_step parse) f es) = f_promise f"
proof (induction es arbitrary: f)
  case Nil
  then show ?case by simp
next
  case (Cons e es)
  then show ?case by (simp add: fetch_step_settled)
qed

lemma fetch_step_settles:
  "\<not> is_data e \<Longrightarrow> f_promise (fetch_step parse f e) \<noteq> Pending"
  by (cases e)
     (auto simp: fetch_close_def fetch_timeout_def settle_def split: option.splits)

lemma getVideoMetadata_first:
  assumes "\<forall>e \<in> set pre. is_data e" and "\<not> is_data ev"
  shows "f_promise (getVideoMetadata parse pre) = Pending"
    and "f_promise (getVideoMetadata parse (pre @ ev # post)) =
         f_promise (fetch_step parse (getVideoMetadata parse pre) ev)"
proof -
  show p: "f_promise (getVideoMetadata parse pre) = Pending"
    using fetch_data_keeps [OF assms(1), of parse fetch_init]
    by (simp add: getVideoMetadata_def fetch_init_def)
  have "f_promise (fetch_step parse (getVideoMetadata parse pre) ev) \<noteq> Pending"
    using assms(2) by (rule fetch_step_settles)
  then show "f_promise (getVideoMetadata parse (pre @ ev # post)) =
         f_promise (fetch_step parse (getVideoMetadata parse pre) ev)"
    by (simp add: getVideoMetadata_def fetch_settled_stays)
qed

lemma fetch_buffers:
  "f_stdout (foldl (fetch_step parse) f es) = f_stdout f @ stdout_text es \<and>
   f_stderr (foldl (fetch_step parse) f es) = f_stderr f @ stderr_text es"
proof (induction es arbitrary: f)
  case Nil
  then show ?case by simp
next
  case (Cons e es)
  show ?case
    by (cases e) (simp_all add: Cons.IH fetch_close_def fetch_timeout_def)
qed

lemma getVideoMetadata_buffers:
  "f_stdout (getVideoMetadata parse es) = stdout_text es"
  "f_stderr (getVideoMetadata parse es) = stderr_text es"
  using fetch_buffers [of parse fetch_init es]
  by (simp_all add: getVideoMetadata_def fetch_init_def)

lemma fetch_killed_stays:
  "f_killed f \<Longrightarrow> f_killed (foldl (fetch_step parse) f es)"
proof (induction es arbitrary: f)
  case Nil
  then show ?case by simp
next
  case (Cons e es)
  from Cons.prems have "f_killed (fetch_step parse f e)"
    by (cases e) (simp_all add: fetch_close_def fetch_timeout_def)
  then show ?case by (simp add: Cons.IH)
qed

lemma fetch_schedule_early:
  "\<forall>te \<in> set pre. fst te < metadata_timeout_ms \<Longrightarrow>
   fetch_schedule (pre @ rest) = map snd pre @ fetch_schedule rest"
proof (induction pre)
  case Nil
  then show ?case by simp
next
  case (Cons te pre)
  obtain t e where te: "te = (t, e)" by (cases te)
  with Cons show ?case by simp
qed

lemma fetch_schedule_late:
  assumes "\<forall>te \<in> set later. metadata_timeout_ms \<le> fst te"
  shows "fetch_schedule later = FTimeout # map snd later"
proof (cases later)
  case Nil
  then show ?thesis by simp
next
  case (Cons te tes)
  obtain t e where te: "te = (t, e)" by (cases te)
  with Cons assms show ?thesis by simp
qed

text \<open>The process closes before the timer fires: the close handler settles the promise.\<close>

lemma fetch_closed_in_time:
  assumes "\<forall>te \<in> set pre. is_data (snd te) \<and> fst te < metadata_timeout_ms"
    and "tc < metadata_timeout_ms"
  shows "f_promise (getVideoMetadata parse (fetch_schedule (pre @ (tc, FClose code) # later))) =
           (if code = Some 0 then
              (case parse (trim (stdout_text (map snd pre))) of
                 None \<Rightarrow> Rejected ''Failed to parse video metadata''
               | Some md \<Rightarrow>
                   (case normalize_metadata md of
                      None \<Rightarrow> Rejected ''Failed to parse video metadata''
                    | Some m \<Rightarrow> Resolved m))
            else Rejected (''Failed to fetch metadata: '' @ trim (stderr_text (map snd pre))))"
proof -
  from assms(1) have early: "\<forall>te \<in> set pre. fst te < metadata_timeout_ms" by simp
  from assms(1) have data: "\<forall>e \<in> set (map snd pre). is_data e" by simp
  have nd: "\<not> is_data (FClose code)" by simp
  have sch: "fetch_schedule (pre @ (tc, FClose code) # later) =
      map snd pre @ FClose code # fetch_schedule later"
    using fetch_schedule_early [OF early, of "(tc, FClose code) # later"] assms(2) by simp
  have pend: "f_promise (getVideoMetadata parse (map snd pre)) = Pending"
    by (rule getVideoMetadata_first(1) [OF data nd])
  have "f_promise (getVideoMetadata parse (map snd pre @ FClose code # fetch_schedule later)) =
      f_promise (fetch_step parse (getVideoMetadata parse (map snd pre)) (FClose code))"
    by (rule getVideoMetadata_first(2) [OF data nd])
  also have "\<dots> = f_promise (fetch_close parse code (getVideoMetadata parse (map snd pre)))"
    by simp
  also have "\<dots> =
           (if code = Some 0 then
              (case parse (trim (stdout_text (map snd pre))) of
                 None \<Rightarrow> Rejected ''Failed to parse video metadata''
               | Some md \<Rightarrow>
                   (case normalize_metadata md of
                      None \<Rightarrow> Rejected ''Failed to parse video metadata''
                    | Some m \<Rightarrow> Resolved m))
            else Rejected (''Failed to fetch metadata: '' @ trim (stderr_text (map snd pre))))"
    using pend by (simp add: fetch_close_def settle_def getVideoMetadata_buffers)
  finally show ?thesis unfolding sch .
qed

text \<open>The process has not closed when the timer fires: the timer callback settles it.\<close>

lemma fetch_timer_fires:
  assumes "\<forall>te \<in> set pre. is_data (snd te) \<and> fst te < metadata_timeout_ms"
    and "\<forall>te \<in> set later. metadata_timeout_ms \<le> fst te"
  shows "f_promise (getVideoMetadata parse (fetch_schedule (pre @ later))) =
           Rejected ''Metadata fetch timeout''"
    and "f_killed (getVideoMetadata parse (fetch_schedule (pre @ later)))"
proof -
  from assms(1) have early: "\<forall>te \<in> set pre. fst te < metadata_timeout_ms" by simp
  from assms(1) have data: "\<forall>e \<in> set (map snd pre). is_data e" by simp
  have nd: "\<not> is_data FTimeout" by simp
  have sch: "fetch_schedule (pre @ later) = map snd pre @ FTimeout # map snd later"
    using fetch_schedule_early [OF early, of later] fetch_schedule_late [OF assms(2)] by simp
  have pend: "f_promise (getVideoMetadata parse (map snd pre)) = Pending"
    by (rule getVideoMetadata_first(1) [OF data nd])
  have "f_promise (getVideoMetadata parse (map snd pre @ FTimeout # map snd later)) =
      f_promise (fetch_step parse (getVideoMetadata parse (map snd pre)) FTimeout)"
    by (rule getVideoMetadata_first(2) [OF data nd])
  also have "\<dots> = Rejected ''Metadata fetch timeout''"
    using pend by (simp add: fetch_timeout_def settle_def)
  finally show "f_promise (getVideoMetadata parse (fetch_schedule (pre @ later))) =
           Rejected ''Metadata fetch timeout''"
    unfolding sch .
  have "f_killed (fetch_step parse (getVideoMetadata parse (map snd pre)) FTimeout)"
    by (simp add: fetch_timeout_def)
  then have "f_killed (foldl (fetch_step parse)
      (fetch_step parse (getVideoMetadata parse (map snd pre)) FTimeout) (map snd later))"
    by (rule fetch_killed_stays)
  then show "f_killed (getVideoMetadata parse (fetch_schedule (pre @ later)))"
    unfolding sch by (simp add: getVideoMetadata_def)
qed

lemma normalize_metadata_none: "normalize_metadata md = None \<longleftrightarrow> md = JNull"
  by (simp add: normalize_metadata_def)

lemma promise_populated_step:
  assumes "\<forall>md. f_promise f = Resolved md \<longrightarrow> populated md"
  shows "\<forall>md. f_promise (fetch_step parse f e) = Resolved md \<longrightarrow> populated md"
proof (cases "f_promise f = Pending")
  case False
  with assms show ?thesis by (simp add: fetch_step_settled)
next
  case True
  show ?thesis
  proof (cases e)
    case (FStdout d)
    with True show ?thesis by simp
  next
    case (FStderr d)
    with True show ?thesis by simp
  next
    case FTimeout
    with True show ?thesis by (simp add: fetch_timeout_def settle_def)
  next
    case (FClose code)
    with True show ?thesis
      by (auto simp: fetch_close_def settle_def normalize_populated
               split: if_splits option.splits)
  qed
qed

lemma promise_populated_run:
  "\<forall>md. f_promise f = Resolved md \<longrightarrow> populated md \<Longrightarrow>
   \<forall>md. f_promise (foldl (fetch_step parse) f es) = Resolved md \<longrightarrow> populated md"
proof (induction es arbitrary: f)
  case Nil
  then show ?case by simp
next
  case (Cons e es)
  have "\<forall>md. f_promise (fetch_step parse f e) = Resolved md \<longrightarrow> populated md"
    using Cons.prems by (rule promise_populated_step)
  then have "\<forall>md. f_promise (foldl (fetch_step parse) (fetch_step parse f e) es) = Resolved md
      \<longrightarrow> populated md"
    by (rule Cons.IH)
  then show ?case by simp
qed

lemma getVideoMetadata_populated:
  "f_promise (getVideoMetadata parse es) = Resolved md \<Longrightarrow> populated md"
  using promise_populated_run [of fetch_init parse es]
  by (simp add: getVideoMetadata_def fetch_init_def)

lemma set_update_cases:
  "x \<in> set (AList.update k v xs) \<Longrightarrow> x = (k, v) \<or> x \<in> set xs"
  by (induction xs) (auto split: if_splits)

lemma step_metadata: "metadata (job (step env s e)) = metadata (job s)"
proof (cases e)
  case (Stderr out)
  then show ?thesis
    by (simp add: stderr_data_def Let_def split: option.splits)
next
  case (Close code)
  then show ?thesis
    by (simp add: close_handler_def Let_def split: option.splits)
next
  case Timeout
  then show ?thesis by (simp add: timeout_handler_def Let_def)
qed

lemma step_registry:
  assumes "x \<in> set (jobs (step env s e))"
  shows "x \<in> set (jobs s) \<or> x = (env_jobId env, job (step env s e))"
proof (cases e)
  case (Stderr out)
  show ?thesis
  proof (cases "includes_str out ''[download]''")
    case False
    with assms Stderr show ?thesis by (simp add: stderr_data_def Let_def)
  next
    case True
    with Stderr have "jobs (step env s e) =
        AList.update (env_jobId env) (job (step env s e)) (jobs s)"
      by (simp add: stderr_data_def Let_def)
    with assms show ?thesis by (metis set_update_cases)
  qed
next
  case (Close code)
  then have "jobs (step env s e) = AList.update (env_jobId env) (job (step env s e)) (jobs s)"
    by (simp add: close_handler_def Let_def)
  with assms show ?thesis by (metis set_update_cases)
next
  case Timeout
  then have "jobs (step env s e) = AList.update (env_jobId env) (job (step env s e)) (jobs s)"
    by (simp add: timeout_handler_def Let_def)
  with assms show ?thesis by (metis set_update_cases)
qed

lemma step_populated:
  assumes "populated (metadata (job s))"
    and "\<forall>x \<in> set (jobs s). populated (metadata (snd x))"
  shows "populated (metadata (job (step env s e))) \<and>
         (\<forall>x \<in> set (jobs (step env s e)). populated (metadata (snd x)))"
proof
  show j: "populated (metadata (job (step env s e)))"
    using assms(1) by (simp add: step_metadata)
  show "\<forall>x \<in> set (jobs (step env s e)). populated (metadata (snd x))"
  proof
    fix x assume "x \<in> set (jobs (step env s e))"
    then have "x \<in> set (jobs s) \<or> x = (env_jobId env, job (step env s e))"
      by (rule step_registry)
    with assms(2) j show "populated (metadata (snd x))" by auto
  qed
qed

lemma start_populated:
  assumes "performConversion_start env reg = Inr s0"
    and "\<forall>x \<in> set reg. populated (metadata (snd x))"
  shows "populated (metadata (job s0)) \<and>
         (\<forall>x \<in> set (jobs s0). populated (metadata (snd x)))"
proof -
  from assms(1) obtain j0 where j0: "map_of reg (env_jobId env) = Some j0"
    and s0: "s0 = \<lparr>jobs = AList.update (env_jobId env) (j0\<lparr>status := DOWNLOADING, progress := 10\<rparr>) reg,
                  job = j0\<lparr>status := DOWNLOADING, progress := 10\<rparr>, stderr = [], killed = False\<rparr>"
    by (cases "map_of reg (env_jobId env)")
       (auto simp: performConversion_start_def Let_def)
  from j0 have "(env_jobId env, j0) \<in> set reg" by (rule map_of_SomeD)
  with assms(2) have p: "populated (metadata j0)" by auto
  have "\<forall>x \<in> set (AList.update (env_jobId env) (j0\<lparr>status := DOWNLOADING, progress := 10\<rparr>) reg).
      populated (metadata (snd x))"
  proof
    fix x assume "x \<in> set (AList.update (env_jobId env) (j0\<lparr>status := DOWNLOADING, progress := 10\<rparr>) reg)"
    then have "x = (env_jobId env, j0\<lparr>status := DOWNLOADING, progress := 10\<rparr>) \<or> x \<in> set reg"
      by (rule set_update_cases)
    with assms(2) p show "populated (metadata (snd x))" by auto
  qed
  with p show ?thesis unfolding s0 by simp
qed

section \<open>Terminal states\<close>

text \<open>
  C1. The specification says that Ready and Error are final: once the status of a job is one
  of them, neither the close handler nor the timer changes its status or error again. The
  code does not keep this. The timer of lines 220-226 is never cleared, so it also fires
  after a conversion that succeeded: for a process that reports the end of the download
  after 5 seconds and closes with exit code 0 after 61 seconds, the job is Ready with no
  error after the close event, and the timer callback, run after 600 seconds, makes it Error
  with the text of the timeout. In the other order, the close event that follows the kill
  replaces the text of the timeout, and a chunk of output that still arrives after the kill
  takes the job from Error back to Converting. The timer callback also stores the job in
  the registry again when the entry has been deleted in the meantime.
\<close>

theorem ready_job_overwritten_by_timer:
  "performConversion_start sample_env [(''j1'', sample_job)] = Inr sample_start \<and>
   schedule [(5000, Stderr ''[download] 100% of 3.00MiB''), (61000, Close (Some 0))] =
     [Stderr ''[download] 100% of 3.00MiB'', Close (Some 0), Timeout] \<and>
   wf_trace False [Stderr ''[download] 100% of 3.00MiB'', Close (Some 0), Timeout] \<and>
   status (job (run sample_env sample_start
     [Stderr ''[download] 100% of 3.00MiB'', Close (Some 0)])) = READY \<and>
   error (job (run sample_env sample_start
     [Stderr ''[download] 100% of 3.00MiB'', Close (Some 0)])) = None \<and>
   status (job (run sample_env sample_start
     [Stderr ''[download] 100% of 3.00MiB'', Close (Some 0), Timeout])) = ERROR \<and>
   error (job (run sample_env sample_start
     [Stderr ''[download] 100% of 3.00MiB'', Close (Some 0), Timeout])) =
     Some ''Conversion timeout'' \<and>
   error (job (run sample_env sample_start [Timeout])) = Some ''Conversion timeout'' \<and>
   error (job (run sample_env sample_start [Timeout, Close None])) =
     Some ''Unknown conversion error'' \<and>
   wf_trace False [Timeout, Stderr ''[download] 100% of 3.00MiB''] \<and>
   status (job (run sample_env sample_start [Timeout])) = ERROR \<and>
   status (job (run sample_env sample_start
     [Timeout, Stderr ''[download] 100% of 3.00MiB''])) = CONVERTING \<and>
   map_of (jobs (timeout_handler sample_env
     ((run sample_env sample_start [Close (Some 0)])\<lparr>jobs := []\<rparr>))) ''j1'' =
     Some (job (timeout_handler sample_env (run sample_env sample_start [Close (Some 0)])))"
  by (simp add: performConversion_start_def conversion_timeout_ms_def sample_defs handler_defs)

section \<open>Progress of a job\<close>

text \<open>
  C2, as the code has it. During one conversion (the start, then the stderr chunks, the
  close event and the timer in any order Node.js can produce), with no other conversion of
  the same job running beside it, the progress of the job is a number from 0 to 100, it never decreases from one callback to the next, a callback that
  turns the status into Error leaves it at its last value, and whenever the status is Ready
  it is 100. The start of a conversion sets the status to Downloading and the progress to
  10, and an accepted convert request is such a start, whatever the job was before. The
  progress need not be an integer and a second convert request for the same job takes it
  back to 10, as the evaluation after the witness shows.
\<close>

theorem progress_monotone_bounded:
  assumes "performConversion_start env reg = Inr s0" and "wf_trace False (es @ [e])"
  shows "status (job s0) = DOWNLOADING \<and> progress (job s0) = 10 \<and>
         0 \<le> progress (job (run env s0 (es @ [e]))) \<and>
         progress (job (run env s0 (es @ [e]))) \<le> 100 \<and>
         progress (job (run env s0 es)) \<le> progress (job (run env s0 (es @ [e]))) \<and>
         (status (job (run env s0 (es @ [e]))) = ERROR \<longrightarrow>
            status (job (run env s0 es)) \<noteq> ERROR \<longrightarrow>
            progress (job (run env s0 (es @ [e]))) = progress (job (run env s0 es))) \<and>
         (status (job (run env s0 (es @ [e]))) = READY \<longrightarrow>
            progress (job (run env s0 (es @ [e]))) = 100) \<and>
         (env_jobId env \<noteq> [] \<longrightarrow> env_format env \<in> set [''mp3'', ''mp4''] \<longrightarrow>
            convert env reg = (ConvertOk (env_jobId env), Some s0))"
proof -
  from assms(1) have start: "status (job s0) = DOWNLOADING \<and> progress (job s0) = 10"
    by (cases "map_of reg (env_jobId env)")
       (auto simp: performConversion_start_def Let_def)
  from assms(1) have "pre_close (job s0)" by (rule pre_close_start)
  with assms(2) have "step_ok (job (run env s0 es)) e (job (step env (run env s0 es) e))"
    by (rule trace_step)
  then have ok: "step_ok (job (run env s0 es)) e (job (run env s0 (es @ [e])))"
    by (simp only: run_snoc)
  from assms(1) have known: "map_of reg (env_jobId env) \<noteq> None"
    by (cases "map_of reg (env_jobId env)") (simp_all add: performConversion_start_def)
  have again: "env_jobId env \<noteq> [] \<longrightarrow> env_format env \<in> set [''mp3'', ''mp4''] \<longrightarrow>
      convert env reg = (ConvertOk (env_jobId env), Some s0)"
    using assms(1) known by (auto simp: convert_def)
  from ok have run: "0 \<le> progress (job (run env s0 (es @ [e]))) \<and>
         progress (job (run env s0 (es @ [e]))) \<le> 100 \<and>
         progress (job (run env s0 es)) \<le> progress (job (run env s0 (es @ [e]))) \<and>
         (status (job (run env s0 (es @ [e]))) = ERROR \<longrightarrow>
            status (job (run env s0 es)) \<noteq> ERROR \<longrightarrow>
            progress (job (run env s0 (es @ [e]))) = progress (job (run env s0 es))) \<and>
         (status (job (run env s0 (es @ [e]))) = READY \<longrightarrow>
            progress (job (run env s0 (es @ [e]))) = 100)"
    unfolding step_ok_def by simp
  from start run again show ?thesis by blast
qed

theorem progress_monotone_bounded_witness:
  "performConversion_start sample_env [(''j1'', sample_job)] = Inr sample_start \<and>
   wf_trace False ([Stderr ''[download] 45.2%''] @ [Close (Some 0)]) \<and>
   wf_trace False ([Stderr ''[download] 45.2%''] @ [Timeout]) \<and>
   progress (job (run sample_env sample_start [Stderr ''[download] 45.2%''])) =
     8866461766385663 / 2 ^ 48 \<and>
   status (job (run sample_env sample_start ([Stderr ''[download] 45.2%''] @ [Close (Some 0)])))
     = READY \<and>
   progress (job (run sample_env sample_start ([Stderr ''[download] 45.2%''] @ [Close (Some 0)])))
     = 100 \<and>
   status (job (run sample_env sample_start ([Stderr ''[download] 45.2%''] @ [Timeout])))
     = ERROR \<and>
   progress (job (run sample_env sample_start ([Stderr ''[download] 45.2%''] @ [Timeout])))
     = 8866461766385663 / 2 ^ 48 \<and>
   convert sample_env [(''j1'', sample_job)] = (ConvertOk ''j1'', Some sample_start)"
proof -
  have h1: "performConversion_start sample_env [(''j1'', sample_job)] = Inr sample_start"
    by (simp add: performConversion_start_def sample_defs Let_def)
  have h2: "wf_trace False ([Stderr ''[download] 45.2%''] @ [Close (Some 0)])"
    by simp
  have h3: "wf_trace False ([Stderr ''[download] 45.2%''] @ [Timeout])"
    by simp
  have a: "progress (job (run sample_env sample_start [Stderr ''[download] 45.2%''])) =
      8866461766385663 / 2 ^ 48"
    by (simp add: sample_defs handler_defs)
  have b: "status (job (run sample_env sample_start
             ([Stderr ''[download] 45.2%''] @ [Close (Some 0)]))) = READY"
    by (simp add: sample_defs handler_defs)
  have c: "status (job (run sample_env sample_start
             ([Stderr ''[download] 45.2%''] @ [Timeout]))) = ERROR"
    by (simp add: sample_defs handler_defs)
  have d: "status (job (run sample_env sample_start [Stderr ''[download] 45.2%''])) \<noteq> ERROR"
    by (simp add: sample_defs handler_defs)
  have id: "env_jobId sample_env \<noteq> []" and fmt: "env_format sample_env \<in> set [''mp3'', ''mp4'']"
    and jid: "env_jobId sample_env = ''j1''"
    by (simp_all add: sample_env_def)
  note T1 = progress_monotone_bounded [OF h1 h2]
  note T2 = progress_monotone_bounded [OF h1 h3]
  from T1 [THEN conjunct2, THEN conjunct2, THEN conjunct2, THEN conjunct2, THEN conjunct2,
      THEN conjunct2, THEN conjunct1, rule_format, OF b]
  have r1: "progress (job (run sample_env sample_start
      ([Stderr ''[download] 45.2%''] @ [Close (Some 0)]))) = 100" .
  from T2 [THEN conjunct2, THEN conjunct2, THEN conjunct2, THEN conjunct2, THEN conjunct2,
      THEN conjunct1, rule_format, OF c d]
  have r2: "progress (job (run sample_env sample_start
      ([Stderr ''[download] 45.2%''] @ [Timeout]))) = 8866461766385663 / 2 ^ 48"
    unfolding a .
  from T1 [THEN conjunct2, THEN conjunct2, THEN conjunct2, THEN conjunct2, THEN conjunct2,
      THEN conjunct2, THEN conjunct2, rule_format, OF id fmt]
  have r3: "convert sample_env [(''j1'', sample_job)] = (ConvertOk ''j1'', Some sample_start)"
    unfolding jid .
  from h1 h2 h3 a b r1 c r2 r3 show ?thesis by (intro conjI)
qed

text \<open>
  The progress is not always an integer, and over several steps of the orchestration it
  does decrease while the status is not final. After the chunk \<^verbatim>\<open>[download] 45.2%\<close> the
  progress is the double 45 times 0.7, which is 31.499999999999996. A second convert request
  for the same job is accepted while the job is downloading; it starts
  \<^verbatim>\<open>performConversion\<close> again, which sets the progress back to 10.
\<close>

theorem progress_fraction_and_restart:
  "performConversion_start sample_env [(''j1'', sample_job)] = Inr sample_start \<and>
   wf_trace False [Stderr ''[download] 45.2%''] \<and>
   progress (job (run sample_env sample_start [Stderr ''[download] 45.2%''])) =
     8866461766385663 / 2 ^ 48 \<and>
   progress (job (run sample_env sample_start [Stderr ''[download] 45.2%''])) \<notin> \<int> \<and>
   status (job (run sample_env sample_start [Stderr ''[download] 45.2%''])) = DOWNLOADING \<and>
   map_of (jobs (run sample_env sample_start [Stderr ''[download] 45.2%''])) ''j1'' =
     Some (job (run sample_env sample_start [Stderr ''[download] 45.2%''])) \<and>
   fst (convert sample_env (jobs (run sample_env sample_start [Stderr ''[download] 45.2%'']))) =
     ConvertOk ''j1'' \<and>
   map_option (\<lambda>s. (status (job s), progress (job s)))
     (snd (convert sample_env (jobs (run sample_env sample_start [Stderr ''[download] 45.2%''])))) =
     Some (DOWNLOADING, 10)"
proof -
  have s1: "run sample_env sample_start [Stderr ''[download] 45.2%''] =
      \<lparr>jobs = [(''j1'', sample_job\<lparr>status := DOWNLOADING, progress := 8866461766385663 / 2 ^ 48\<rparr>)],
       job = sample_job\<lparr>status := DOWNLOADING, progress := 8866461766385663 / 2 ^ 48\<rparr>,
       stderr = ''[download] 45.2%'', killed = False\<rparr>"
    by (simp add: sample_defs handler_defs)
  have h1: "performConversion_start sample_env [(''j1'', sample_job)] = Inr sample_start"
    by (simp add: performConversion_start_def sample_defs Let_def)
  have h2: "wf_trace False [Stderr ''[download] 45.2%'']" by simp
  have frac: "(8866461766385663 / 2 ^ 48 :: rat) \<notin> \<int>"
    by simp
  have a: "progress (job (run sample_env sample_start [Stderr ''[download] 45.2%''])) =
      8866461766385663 / 2 ^ 48"
    unfolding s1 by simp
  have b: "progress (job (run sample_env sample_start [Stderr ''[download] 45.2%''])) \<notin> \<int>"
    unfolding a by (rule frac)
  have c: "status (job (run sample_env sample_start [Stderr ''[download] 45.2%''])) = DOWNLOADING"
    unfolding s1 by simp
  have d: "map_of (jobs (run sample_env sample_start [Stderr ''[download] 45.2%''])) ''j1'' =
      Some (job (run sample_env sample_start [Stderr ''[download] 45.2%'']))"
    unfolding s1 by simp
  have e: "fst (convert sample_env
      (jobs (run sample_env sample_start [Stderr ''[download] 45.2%'']))) = ConvertOk ''j1''"
    unfolding s1 by (simp add: convert_def performConversion_start_def sample_env_def Let_def)
  have f: "map_option (\<lambda>s. (status (job s), progress (job s)))
      (snd (convert sample_env
         (jobs (run sample_env sample_start [Stderr ''[download] 45.2%'']))))
      = Some (DOWNLOADING, 10)"
    unfolding s1 by (simp add: convert_def performConversion_start_def sample_env_def Let_def)
  from h1 h2 a b c d e f show ?thesis by (intro conjI)
qed

section \<open>Parsing the diagnostic output\<close>




section \<open>The timer of a conversion\<close>

text \<open>
  What the timer callback does by itself. The timer is set to 600 seconds. Its callback runs
  right after the events of the process that arrived before that time, whatever they were;
  it kills the process, sets the status to Error with the text \<^verbatim>\<open>Conversion timeout\<close>,
  stores the job in the registry and leaves the progress at the value it had.
\<close>

lemma timer_callback_effect:
  "conversion_timeout_ms = 600 * 1000 \<and>
   take (length (takeWhile (\<lambda>(t, e). t < conversion_timeout_ms) tes) + 1) (schedule tes) =
     map snd (takeWhile (\<lambda>(t, e). t < conversion_timeout_ms) tes) @ [Timeout] \<and>
   killed (run env s0 (map snd (takeWhile (\<lambda>(t, e). t < conversion_timeout_ms) tes) @ [Timeout])) \<and>
   status (job (run env s0
     (map snd (takeWhile (\<lambda>(t, e). t < conversion_timeout_ms) tes) @ [Timeout]))) = ERROR \<and>
   error (job (run env s0
     (map snd (takeWhile (\<lambda>(t, e). t < conversion_timeout_ms) tes) @ [Timeout]))) =
     Some ''Conversion timeout'' \<and>
   progress (job (run env s0
     (map snd (takeWhile (\<lambda>(t, e). t < conversion_timeout_ms) tes) @ [Timeout]))) =
     progress (job (run env s0 (map snd (takeWhile (\<lambda>(t, e). t < conversion_timeout_ms) tes)))) \<and>
   map_of (jobs (run env s0
     (map snd (takeWhile (\<lambda>(t, e). t < conversion_timeout_ms) tes) @ [Timeout]))) (env_jobId env) =
     Some (job (run env s0
       (map snd (takeWhile (\<lambda>(t, e). t < conversion_timeout_ms) tes) @ [Timeout])))"
proof -
  let ?pre = "map snd (takeWhile (\<lambda>(t, e). t < conversion_timeout_ms) tes)"
  have ms: "conversion_timeout_ms = 600 * 1000"
    by (simp add: conversion_timeout_ms_def)
  have "take (length ?pre + 1) (schedule tes) = ?pre @ [Timeout]"
    by (subst schedule_split) simp
  then have order: "take (length (takeWhile (\<lambda>(t, e). t < conversion_timeout_ms) tes) + 1)
      (schedule tes) = ?pre @ [Timeout]"
    by simp
  have fire: "run env s0 (?pre @ [Timeout]) = timeout_handler env (run env s0 ?pre)"
    by (simp only: run_snoc step.simps)
  have reg: "map_of (jobs (timeout_handler env s)) (env_jobId env) =
      Some (job (timeout_handler env s))" for s
    by (simp add: timeout_handler_def Let_def update_Some_unfold)
  from ms order timeout_handler_fields [of env "run env s0 ?pre"] reg [of "run env s0 ?pre"]
  show ?thesis unfolding fire by blast
qed

text \<open>
  C4. The specification says that a process that runs for 600 seconds is terminated and that
  the job is then Error with the timeout as its diagnostic and with its progress frozen. The
  code does not keep the job so. The process writes \<^verbatim>\<open>[download]  30.0% of 3.00MiB\<close>
  after one second and nothing else; after 600 seconds the timer callback kills it and the
  job is Error with the text \<^verbatim>\<open>Conversion timeout\<close> and progress 21. The process that was
  killed then closes with the exit code \<^verbatim>\<open>null\<close>, and the close handler, which does not
  look at what the timer did, replaces the text of the timeout with the stderr output of the
  process. A chunk of output that still arrives after the kill moves the progress from 21
  to 35.
\<close>

theorem timeout_diagnostic_overwritten:
  "performConversion_start sample_env [(''j1'', sample_job)] = Inr sample_start \<and>
   conversion_timeout_ms = 600 * 1000 \<and>
   schedule [(1000, Stderr ''[download]  30.0% of 3.00MiB''), (600050, Close None)] =
     [Stderr ''[download]  30.0% of 3.00MiB'', Timeout, Close None] \<and>
   wf_trace False [Stderr ''[download]  30.0% of 3.00MiB'', Timeout, Close None] \<and>
   killed (run sample_env sample_start [Stderr ''[download]  30.0% of 3.00MiB'', Timeout]) \<and>
   status (job (run sample_env sample_start
     [Stderr ''[download]  30.0% of 3.00MiB'', Timeout])) = ERROR \<and>
   error (job (run sample_env sample_start
     [Stderr ''[download]  30.0% of 3.00MiB'', Timeout])) = Some ''Conversion timeout'' \<and>
   progress (job (run sample_env sample_start
     [Stderr ''[download]  30.0% of 3.00MiB'', Timeout])) = 21 \<and>
   status (job (run sample_env sample_start
     [Stderr ''[download]  30.0% of 3.00MiB'', Timeout, Close None])) = ERROR \<and>
   error (job (run sample_env sample_start
     [Stderr ''[download]  30.0% of 3.00MiB'', Timeout, Close None])) =
     Some ''[download]  30.0% of 3.00MiB'' \<and>
   map_option error (map_of (jobs (run sample_env sample_start
     [Stderr ''[download]  30.0% of 3.00MiB'', Timeout, Close None])) ''j1'') =
     Some (Some ''[download]  30.0% of 3.00MiB'') \<and>
   schedule [(1000, Stderr ''[download]  30.0% of 3.00MiB''),
             (600020, Stderr ''[download]  50.0% of 3.00MiB''), (600050, Close None)] =
     [Stderr ''[download]  30.0% of 3.00MiB'', Timeout,
      Stderr ''[download]  50.0% of 3.00MiB'', Close None] \<and>
   wf_trace False [Stderr ''[download]  30.0% of 3.00MiB'', Timeout,
      Stderr ''[download]  50.0% of 3.00MiB'', Close None] \<and>
   progress (job (run sample_env sample_start
     [Stderr ''[download]  30.0% of 3.00MiB'', Timeout,
      Stderr ''[download]  50.0% of 3.00MiB''])) = 35"
proof -
  have h: "performConversion_start sample_env [(''j1'', sample_job)] = Inr sample_start"
    by (simp add: performConversion_start_def sample_defs Let_def)
  have ms: "conversion_timeout_ms = 600 * 1000"
    by (simp add: conversion_timeout_ms_def)
  have o1: "schedule [(1000, Stderr ''[download]  30.0% of 3.00MiB''), (600050, Close None)] =
     [Stderr ''[download]  30.0% of 3.00MiB'', Timeout, Close None]"
    by (simp add: conversion_timeout_ms_def)
  have w1: "wf_trace False [Stderr ''[download]  30.0% of 3.00MiB'', Timeout, Close None]"
    by simp
  have s2: "run sample_env sample_start [Stderr ''[download]  30.0% of 3.00MiB'', Timeout] =
      \<lparr>jobs = [(''j1'', sample_job\<lparr>status := ERROR, progress := 21,
                                   error := Some ''Conversion timeout''\<rparr>)],
       job = sample_job\<lparr>status := ERROR, progress := 21, error := Some ''Conversion timeout''\<rparr>,
       stderr = ''[download]  30.0% of 3.00MiB'', killed = True\<rparr>"
    by (simp add: sample_defs handler_defs)
  have r3: "run sample_env sample_start
      [Stderr ''[download]  30.0% of 3.00MiB'', Timeout, Close None] =
      close_handler sample_env None
        (run sample_env sample_start [Stderr ''[download]  30.0% of 3.00MiB'', Timeout])"
    by (simp add: run_def)
  have s3: "run sample_env sample_start
      [Stderr ''[download]  30.0% of 3.00MiB'', Timeout, Close None] =
      \<lparr>jobs = [(''j1'', sample_job\<lparr>status := ERROR, progress := 21,
                                   error := Some ''[download]  30.0% of 3.00MiB''\<rparr>)],
       job = sample_job\<lparr>status := ERROR, progress := 21,
                        error := Some ''[download]  30.0% of 3.00MiB''\<rparr>,
       stderr = ''[download]  30.0% of 3.00MiB'', killed = True\<rparr>"
    unfolding r3 s2 by (simp add: close_handler_def sample_env_def trim_eval)
  have o2: "schedule [(1000, Stderr ''[download]  30.0% of 3.00MiB''),
             (600020, Stderr ''[download]  50.0% of 3.00MiB''), (600050, Close None)] =
     [Stderr ''[download]  30.0% of 3.00MiB'', Timeout,
      Stderr ''[download]  50.0% of 3.00MiB'', Close None]"
    by (simp add: conversion_timeout_ms_def)
  have w2: "wf_trace False [Stderr ''[download]  30.0% of 3.00MiB'', Timeout,
      Stderr ''[download]  50.0% of 3.00MiB'', Close None]"
    by simp
  have r4: "run sample_env sample_start
      [Stderr ''[download]  30.0% of 3.00MiB'', Timeout,
       Stderr ''[download]  50.0% of 3.00MiB''] =
      stderr_data sample_env ''[download]  50.0% of 3.00MiB''
        (run sample_env sample_start [Stderr ''[download]  30.0% of 3.00MiB'', Timeout])"
    by (simp add: run_def)
  have p4: "progress (job (run sample_env sample_start
      [Stderr ''[download]  30.0% of 3.00MiB'', Timeout,
       Stderr ''[download]  50.0% of 3.00MiB''])) = 35"
    unfolding r4 s2 by (simp add: sample_env_def handler_defs)
  have k: "killed (run sample_env sample_start [Stderr ''[download]  30.0% of 3.00MiB'', Timeout])"
    and st2: "status (job (run sample_env sample_start
      [Stderr ''[download]  30.0% of 3.00MiB'', Timeout])) = ERROR"
    and er2: "error (job (run sample_env sample_start
      [Stderr ''[download]  30.0% of 3.00MiB'', Timeout])) = Some ''Conversion timeout''"
    and pr2: "progress (job (run sample_env sample_start
      [Stderr ''[download]  30.0% of 3.00MiB'', Timeout])) = 21"
    unfolding s2 by simp_all
  have st3: "status (job (run sample_env sample_start
      [Stderr ''[download]  30.0% of 3.00MiB'', Timeout, Close None])) = ERROR"
    and er3: "error (job (run sample_env sample_start
      [Stderr ''[download]  30.0% of 3.00MiB'', Timeout, Close None])) =
      Some ''[download]  30.0% of 3.00MiB''"
    and rg3: "map_option error (map_of (jobs (run sample_env sample_start
      [Stderr ''[download]  30.0% of 3.00MiB'', Timeout, Close None])) ''j1'') =
      Some (Some ''[download]  30.0% of 3.00MiB'')"
    unfolding s3 by simp_all
  from h ms o1 w1 k st2 er2 pr2 st3 er3 rg3 o2 w2 p4 show ?thesis by (intro conjI)
qed

section \<open>Finding the artifact\<close>

text \<open>
  C5, as the code has it. When the process closes with exit code 0, the first of the five
  candidate paths that exists on disk becomes the output path of the job, which is then
  Ready with progress 100; when none exists, the job is Error with the text
  \<^verbatim>\<open>Output file not generated\<close> and its output path is left as it was. The candidates
  are the requested path and the requested path with the first occurrence of the extension
  of the requested format replaced by mp3, mp4, webm and m4a. When the output path is a stem
  followed by that extension, and the stem does not contain the extension, they are the
  requested path and the stem with the extensions mp3, mp4, webm and m4a, in this order,
  so that they differ by their extension only.
\<close>

theorem artifact_resolution:
  "(\<forall>i < length (possibleFiles (env_outputPath env) (env_format env)).
      existsSync (env_files env) (possibleFiles (env_outputPath env) (env_format env) ! i) \<longrightarrow>
      (\<forall>k < i. \<not> existsSync (env_files env)
                   (possibleFiles (env_outputPath env) (env_format env) ! k)) \<longrightarrow>
      status (job (close_handler env (Some 0) s)) = READY \<and>
      progress (job (close_handler env (Some 0) s)) = 100 \<and>
      outputPath (job (close_handler env (Some 0) s)) =
        Some (possibleFiles (env_outputPath env) (env_format env) ! i)) \<and>
   ((\<forall>f \<in> set (possibleFiles (env_outputPath env) (env_format env)).
       \<not> existsSync (env_files env) f) \<longrightarrow>
      status (job (close_handler env (Some 0) s)) = ERROR \<and>
      error (job (close_handler env (Some 0) s)) = Some ''Output file not generated'' \<and>
      outputPath (job (close_handler env (Some 0) s)) = outputPath (job s)) \<and>
   map_of (jobs (close_handler env (Some 0) s)) (env_jobId env) =
     Some (job (close_handler env (Some 0) s)) \<and>
   (\<forall>stem. env_outputPath env = stem @ CHR ''.'' # env_format env \<longrightarrow>
      \<not> includes_str stem (CHR ''.'' # env_format env) \<longrightarrow>
      CHR ''.'' \<notin> set (env_format env) \<longrightarrow>
      possibleFiles (env_outputPath env) (env_format env) =
        [stem @ CHR ''.'' # env_format env, stem @ ''.mp3'', stem @ ''.mp4'',
         stem @ ''.webm'', stem @ ''.m4a''])"
proof -
  let ?cands = "possibleFiles (env_outputPath env) (env_format env)"
  let ?ex = "existsSync (env_files env)"
  have first: "status (job (close_handler env (Some 0) s)) = READY \<and>
      progress (job (close_handler env (Some 0) s)) = 100 \<and>
      outputPath (job (close_handler env (Some 0) s)) = Some (?cands ! i)"
    if "i < length ?cands" "?ex (?cands ! i)" "\<forall>k < i. \<not> ?ex (?cands ! k)" for i
  proof -
    from that have "find ?ex ?cands = Some (?cands ! i)"
      unfolding find_Some_iff by blast
    then show ?thesis by (simp add: close_handler_found)
  qed
  have none: "status (job (close_handler env (Some 0) s)) = ERROR \<and>
      error (job (close_handler env (Some 0) s)) = Some ''Output file not generated'' \<and>
      outputPath (job (close_handler env (Some 0) s)) = outputPath (job s)"
    if "\<forall>f \<in> set ?cands. \<not> ?ex f"
  proof -
    from that have "find ?ex ?cands = None"
      unfolding find_None_iff by blast
    then show ?thesis by (simp add: close_handler_missing)
  qed
  have shape: "?cands = [stem @ CHR ''.'' # env_format env, stem @ ''.mp3'', stem @ ''.mp4'',
         stem @ ''.webm'', stem @ ''.m4a'']"
    if "env_outputPath env = stem @ CHR ''.'' # env_format env"
       "\<not> includes_str stem (CHR ''.'' # env_format env)" "CHR ''.'' \<notin> set (env_format env)"
    for stem
    using that possibleFiles_ext [of stem "env_format env"] by simp
  from first none shape close_handler_registry [of env "Some 0" s] show ?thesis
    by blast
qed

theorem artifact_resolution_witness:
  "possibleFiles (env_outputPath sample_env) (env_format sample_env) =
     [''temp/Clip_1000.mp4'', ''temp/Clip_1000.mp3'', ''temp/Clip_1000.mp4'',
      ''temp/Clip_1000.webm'', ''temp/Clip_1000.m4a''] \<and>
   existsSync (env_files sample_env) ''temp/Clip_1000.webm'' \<and>
   status (job (close_handler sample_env (Some 0) sample_start)) = READY \<and>
   outputPath (job (close_handler sample_env (Some 0) sample_start)) =
     Some ''temp/Clip_1000.webm''"
proof -
  let ?cands = "possibleFiles (env_outputPath sample_env) (env_format sample_env)"
  note T = artifact_resolution [of sample_env sample_start]
  have path: "env_outputPath sample_env = ''temp/Clip_1000'' @ CHR ''.'' # env_format sample_env"
    and stem: "\<not> includes_str ''temp/Clip_1000'' (CHR ''.'' # env_format sample_env)"
    and dot: "CHR ''.'' \<notin> set (env_format sample_env)"
    by (simp_all add: sample_env_def)
  from T [THEN conjunct2, THEN conjunct2, THEN conjunct2, rule_format, OF path stem dot]
  have shape: "?cands =
     [''temp/Clip_1000.mp4'', ''temp/Clip_1000.mp3'', ''temp/Clip_1000.mp4'',
      ''temp/Clip_1000.webm'', ''temp/Clip_1000.m4a'']"
    by (simp add: sample_env_def)
  have ex: "existsSync (env_files sample_env) ''temp/Clip_1000.webm''"
    by (simp add: sample_env_def existsSync_def)
  have ex3: "existsSync (env_files sample_env) (?cands ! 3)"
    unfolding shape using ex by simp
  have before: "\<not> existsSync (env_files sample_env) (?cands ! k)" if "k < 3" for k
  proof -
    from that consider "k = 0" | "k = 1" | "k = 2" by linarith
    then show ?thesis
      unfolding shape by cases (simp_all add: sample_env_def existsSync_def)
  qed
  have len: "3 < length ?cands" unfolding shape by simp
  from T [THEN conjunct1, rule_format, OF len ex3 before]
  have "status (job (close_handler sample_env (Some 0) sample_start)) = READY \<and>
      outputPath (job (close_handler sample_env (Some 0) sample_start)) = Some (?cands ! 3)"
    by simp
  then have found: "status (job (close_handler sample_env (Some 0) sample_start)) = READY \<and>
      outputPath (job (close_handler sample_env (Some 0) sample_start)) =
        Some ''temp/Clip_1000.webm''"
    unfolding shape by simp
  from shape ex found show ?thesis by simp
qed

text \<open>
  The candidates do not always differ by their extension only. \<^verbatim>\<open>String.prototype.replace\<close>
  rewrites the first occurrence of the extension, and the file name made by
  \<^verbatim>\<open>sanitizeFilename\<close> holds no dot, so this is the case when the directory of the server
  contains the extension: under \<^verbatim>\<open>d.mp4.x\<close> the four other candidates lie in other
  directories, the file with the extension webm beside the requested path is not among
  them, and the job is Error although that file exists.
\<close>

theorem candidates_in_other_directories:
  "possibleFiles ''d.mp4.x/temp/Clip_1000.mp4'' ''mp4'' =
     [''d.mp4.x/temp/Clip_1000.mp4'', ''d.mp3.x/temp/Clip_1000.mp4'',
      ''d.mp4.x/temp/Clip_1000.mp4'', ''d.webm.x/temp/Clip_1000.mp4'',
      ''d.m4a.x/temp/Clip_1000.mp4''] \<and>
   existsSync [''d.mp4.x/temp/Clip_1000.webm'' \<mapsto> Readable ''bytes'']
     ''d.mp4.x/temp/Clip_1000.webm'' \<and>
   status (job (close_handler
     (sample_env\<lparr>env_outputPath := ''d.mp4.x/temp/Clip_1000.mp4'',
                 env_files := [''d.mp4.x/temp/Clip_1000.webm'' \<mapsto> Readable ''bytes'']\<rparr>)
     (Some 0) sample_start)) = ERROR \<and>
   error (job (close_handler
     (sample_env\<lparr>env_outputPath := ''d.mp4.x/temp/Clip_1000.mp4'',
                 env_files := [''d.mp4.x/temp/Clip_1000.webm'' \<mapsto> Readable ''bytes'']\<rparr>)
     (Some 0) sample_start)) = Some ''Output file not generated''"
proof -
  have cands: "possibleFiles ''d.mp4.x/temp/Clip_1000.mp4'' ''mp4'' =
     [''d.mp4.x/temp/Clip_1000.mp4'', ''d.mp3.x/temp/Clip_1000.mp4'',
      ''d.mp4.x/temp/Clip_1000.mp4'', ''d.webm.x/temp/Clip_1000.mp4'',
      ''d.m4a.x/temp/Clip_1000.mp4'']"
    by (simp add: possibleFiles_def)
  have ex: "existsSync [''d.mp4.x/temp/Clip_1000.webm'' \<mapsto> Readable ''bytes'']
     ''d.mp4.x/temp/Clip_1000.webm''"
    by (simp add: existsSync_def)
  have "status (job (close_handler
     (sample_env\<lparr>env_outputPath := ''d.mp4.x/temp/Clip_1000.mp4'',
                 env_files := [''d.mp4.x/temp/Clip_1000.webm'' \<mapsto> Readable ''bytes'']\<rparr>)
     (Some 0) sample_start)) = ERROR \<and>
   error (job (close_handler
     (sample_env\<lparr>env_outputPath := ''d.mp4.x/temp/Clip_1000.mp4'',
                 env_files := [''d.mp4.x/temp/Clip_1000.webm'' \<mapsto> Readable ''bytes'']\<rparr>)
     (Some 0) sample_start)) = Some ''Output file not generated''"
    by (simp add: close_handler_def sample_env_def cands existsSync_def Let_def)
  with cands ex show ?thesis by (intro conjI) simp_all
qed

section \<open>Download and deferred deletion\<close>

text \<open>
  C6, as the code has it. The download handler streams the file exactly when the job
  exists, its status is Ready, and its output file exists on disk and can be read; the
  stream then carries the bytes of that file under its base name, and the deferred deletion
  is registered, with the registry and the files unchanged. It answers with status 500
  exactly when the job exists and is Ready and its output file exists and cannot be read.
  Each error answer, 404 or 500, changes nothing and registers no deletion, and there is no
  other answer. The deferred deletion removes the job and the file, leaves the other jobs
  alone, and when the file is missing already it leaves the files as they are.
\<close>

theorem download_outcomes:
  "((\<exists>name srv'. download jobId srv = (FileStream name bytes, srv')) \<longleftrightarrow>
      (\<exists>j p. map_of (srv_jobs srv) jobId = Some j \<and> status j = READY \<and>
             outputPath j = Some p \<and> p \<noteq> [] \<and> srv_files srv p = Some (Readable bytes))) \<and>
   (\<forall>j p. map_of (srv_jobs srv) jobId = Some j \<longrightarrow> status j = READY \<longrightarrow>
      outputPath j = Some p \<longrightarrow> p \<noteq> [] \<longrightarrow> srv_files srv p = Some (Readable bytes) \<longrightarrow>
      download jobId srv =
        (FileStream (basename p) bytes,
         srv\<lparr>srv_timers := srv_timers srv @ [(jobId, p)]\<rparr>)) \<and>
   ((\<exists>msg srv'. download jobId srv = (ErrorJson 500 msg, srv')) \<longleftrightarrow>
      (\<exists>j p. map_of (srv_jobs srv) jobId = Some j \<and> status j = READY \<and>
             outputPath j = Some p \<and> p \<noteq> [] \<and> srv_files srv p = Some Unreadable)) \<and>
   (\<forall>code msg srv'. download jobId srv = (ErrorJson code msg, srv') \<longrightarrow>
      srv' = srv \<and>
      ((code = 404 \<and> (msg = ''File not ready for download'' \<or> msg = ''File not found'')) \<or>
       (code = 500 \<and> msg = ''Download failed''))) \<and>
   ((\<exists>name b. fst (download jobId srv) = FileStream name b) \<or>
    (\<exists>code msg. fst (download jobId srv) = ErrorJson code msg)) \<and>
   map_of (srv_jobs (download_cleanup jobId q srv)) jobId = None \<and>
   srv_files (download_cleanup jobId q srv) = (srv_files srv)(q := None) \<and>
   (\<forall>k. k \<noteq> jobId \<longrightarrow>
      map_of (srv_jobs (download_cleanup jobId q srv)) k = map_of (srv_jobs srv) k) \<and>
   (srv_files srv q = None \<longrightarrow>
      srv_files (download_cleanup jobId q srv) = srv_files srv)"
proof -
  have c1: "(\<exists>name srv'. download jobId srv = (FileStream name bytes, srv')) \<longleftrightarrow>
      (\<exists>j p. map_of (srv_jobs srv) jobId = Some j \<and> status j = READY \<and>
             outputPath j = Some p \<and> p \<noteq> [] \<and> srv_files srv p = Some (Readable bytes))"
  proof
    assume "\<exists>name srv'. download jobId srv = (FileStream name bytes, srv')"
    then obtain name srv' where "download jobId srv = (FileStream name bytes, srv')" by blast
    from download_stream_inv [OF this]
    show "\<exists>j p. map_of (srv_jobs srv) jobId = Some j \<and> status j = READY \<and>
             outputPath j = Some p \<and> p \<noteq> [] \<and> srv_files srv p = Some (Readable bytes)"
      by blast
  next
    assume "\<exists>j p. map_of (srv_jobs srv) jobId = Some j \<and> status j = READY \<and>
             outputPath j = Some p \<and> p \<noteq> [] \<and> srv_files srv p = Some (Readable bytes)"
    then obtain j p where "map_of (srv_jobs srv) jobId = Some j" "status j = READY"
      "outputPath j = Some p" "p \<noteq> []" "srv_files srv p = Some (Readable bytes)" by blast
    from download_readable [OF this]
    show "\<exists>name srv'. download jobId srv = (FileStream name bytes, srv')" by blast
  qed
  have c2: "\<forall>j p. map_of (srv_jobs srv) jobId = Some j \<longrightarrow> status j = READY \<longrightarrow>
      outputPath j = Some p \<longrightarrow> p \<noteq> [] \<longrightarrow> srv_files srv p = Some (Readable bytes) \<longrightarrow>
      download jobId srv =
        (FileStream (basename p) bytes,
         srv\<lparr>srv_timers := srv_timers srv @ [(jobId, p)]\<rparr>)"
    using download_readable [of srv jobId _ _ bytes] by blast
  have c3: "(\<exists>msg srv'. download jobId srv = (ErrorJson 500 msg, srv')) \<longleftrightarrow>
      (\<exists>j p. map_of (srv_jobs srv) jobId = Some j \<and> status j = READY \<and>
             outputPath j = Some p \<and> p \<noteq> [] \<and> srv_files srv p = Some Unreadable)"
  proof
    assume "\<exists>msg srv'. download jobId srv = (ErrorJson 500 msg, srv')"
    then obtain msg srv' where "download jobId srv = (ErrorJson 500 msg, srv')" by blast
    then show "\<exists>j p. map_of (srv_jobs srv) jobId = Some j \<and> status j = READY \<and>
             outputPath j = Some p \<and> p \<noteq> [] \<and> srv_files srv p = Some Unreadable"
      by (rule download_500_inv)
  next
    assume "\<exists>j p. map_of (srv_jobs srv) jobId = Some j \<and> status j = READY \<and>
             outputPath j = Some p \<and> p \<noteq> [] \<and> srv_files srv p = Some Unreadable"
    then obtain j p where "map_of (srv_jobs srv) jobId = Some j" "status j = READY"
      "outputPath j = Some p" "p \<noteq> []" "srv_files srv p = Some Unreadable" by blast
    from download_unreadable [OF this]
    show "\<exists>msg srv'. download jobId srv = (ErrorJson 500 msg, srv')" by blast
  qed
  have c4: "\<forall>code msg srv'. download jobId srv = (ErrorJson code msg, srv') \<longrightarrow>
      srv' = srv \<and>
      ((code = 404 \<and> (msg = ''File not ready for download'' \<or> msg = ''File not found'')) \<or>
       (code = 500 \<and> msg = ''Download failed''))"
    using download_error_inv [of jobId srv] by blast
  have c5: "(\<exists>name b. fst (download jobId srv) = FileStream name b) \<or>
    (\<exists>code msg. fst (download jobId srv) = ErrorJson code msg)"
    by (rule download_answers)
  have c6: "map_of (srv_jobs (download_cleanup jobId q srv)) jobId = None"
    by (simp add: download_cleanup_def delete_conv')
  have c7: "srv_files (download_cleanup jobId q srv) = (srv_files srv)(q := None)"
    by (simp add: download_cleanup_def)
  have c8: "\<forall>k. k \<noteq> jobId \<longrightarrow>
      map_of (srv_jobs (download_cleanup jobId q srv)) k = map_of (srv_jobs srv) k"
    by (simp add: download_cleanup_def delete_conv')
  have c9: "srv_files srv q = None \<longrightarrow>
      srv_files (download_cleanup jobId q srv) = srv_files srv"
    by (auto simp: download_cleanup_def fun_eq_iff)
  show ?thesis
    by (rule conjI [OF c1 conjI [OF c2 conjI [OF c3 conjI [OF c4 conjI [OF c5
          conjI [OF c6 conjI [OF c7 conjI [OF c8 c9]]]]]]]])
qed

theorem download_outcomes_witness:
  "download ''j1'' sample_server =
     (FileStream ''Clip_1000.webm'' ''bytes'',
      sample_server\<lparr>srv_timers := srv_timers sample_server @ [(''j1'', ''temp/Clip_1000.webm'')]\<rparr>) \<and>
   download ''j2'' sample_server = (ErrorJson 404 ''File not ready for download'', sample_server) \<and>
   download ''j3'' sample_server = (ErrorJson 404 ''File not ready for download'', sample_server) \<and>
   download ''j1'' (sample_server\<lparr>srv_files := Map.empty\<rparr>) =
     (ErrorJson 404 ''File not found'', sample_server\<lparr>srv_files := Map.empty\<rparr>) \<and>
   fst (download ''j1'' (sample_server\<lparr>srv_files := [''temp/Clip_1000.webm'' \<mapsto> Unreadable]\<rparr>)) =
     ErrorJson 500 ''Download failed'' \<and>
   map_of (srv_jobs (download_cleanup ''j1'' ''temp/Clip_1000.webm'' sample_server)) ''j1'' = None \<and>
   srv_files (download_cleanup ''j1'' ''temp/Clip_1000.webm'' sample_server)
     ''temp/Clip_1000.webm'' = None"
proof -
  note T = download_outcomes [of "''j1''" sample_server "''bytes''" "''temp/Clip_1000.webm''"]
  have j: "map_of (srv_jobs sample_server) ''j1'' = Some ready_job"
    by (simp add: sample_server_def)
  have st: "status ready_job = READY" and op: "outputPath ready_job = Some ''temp/Clip_1000.webm''"
    by (simp_all add: ready_job_def)
  have ne: "''temp/Clip_1000.webm'' \<noteq> []" by simp
  have bytes: "srv_files sample_server ''temp/Clip_1000.webm'' = Some (Readable ''bytes'')"
    by (simp add: sample_server_def)
  have base: "basename ''temp/Clip_1000.webm'' = ''Clip_1000.webm''"
    by (simp add: basename_def)
  from T [THEN conjunct2, THEN conjunct1, rule_format, OF j st op ne bytes] base
  have ok: "download ''j1'' sample_server =
     (FileStream ''Clip_1000.webm'' ''bytes'',
      sample_server\<lparr>srv_timers := srv_timers sample_server @ [(''j1'', ''temp/Clip_1000.webm'')]\<rparr>)"
    by simp
  have e2: "download ''j2'' sample_server = (ErrorJson 404 ''File not ready for download'', sample_server)"
    by (simp add: download_def sample_server_def sample_job_def ready_job_def)
  have e3: "download ''j3'' sample_server = (ErrorJson 404 ''File not ready for download'', sample_server)"
    by (simp add: download_def sample_server_def)
  have e4: "download ''j1'' (sample_server\<lparr>srv_files := Map.empty\<rparr>) =
     (ErrorJson 404 ''File not found'', sample_server\<lparr>srv_files := Map.empty\<rparr>)"
    by (simp add: download_def sample_server_def ready_job_def existsSync_def)
  have e5: "fst (download ''j1''
      (sample_server\<lparr>srv_files := [''temp/Clip_1000.webm'' \<mapsto> Unreadable]\<rparr>)) =
     ErrorJson 500 ''Download failed''"
    by (simp add: download_def sample_server_def ready_job_def existsSync_def)
  note gone = T [THEN conjunct2, THEN conjunct2, THEN conjunct2, THEN conjunct2, THEN conjunct2,
      THEN conjunct1]
  have "srv_files (download_cleanup ''j1'' ''temp/Clip_1000.webm'' sample_server) =
      (srv_files sample_server)(''temp/Clip_1000.webm'' := None)"
    by (rule T [THEN conjunct2, THEN conjunct2, THEN conjunct2, THEN conjunct2, THEN conjunct2,
      THEN conjunct2, THEN conjunct1])
  then have removed: "srv_files (download_cleanup ''j1'' ''temp/Clip_1000.webm'' sample_server)
      ''temp/Clip_1000.webm'' = None"
    by simp
  from ok e2 e3 e4 e5 gone removed show ?thesis by (intro conjI)
qed

text \<open>
  A file that exists and cannot be read is not streamed, and the answer is not a 404: the
  job exists, it is Ready and \<^verbatim>\<open>fs.existsSync\<close> is true of its output path, and the
  handler of the stream's error event answers with status 500.
\<close>

theorem unreadable_artifact_not_streamed:
  "map_of (srv_jobs (sample_server\<lparr>srv_files := [''temp/Clip_1000.webm'' \<mapsto> Unreadable]\<rparr>))
     ''j1'' = Some ready_job \<and>
   status ready_job = READY \<and>
   outputPath ready_job = Some ''temp/Clip_1000.webm'' \<and>
   existsSync (srv_files (sample_server\<lparr>srv_files := [''temp/Clip_1000.webm'' \<mapsto> Unreadable]\<rparr>))
     ''temp/Clip_1000.webm'' \<and>
   download ''j1'' (sample_server\<lparr>srv_files := [''temp/Clip_1000.webm'' \<mapsto> Unreadable]\<rparr>) =
     (ErrorJson 500 ''Download failed'',
      sample_server\<lparr>srv_files := [''temp/Clip_1000.webm'' \<mapsto> Unreadable]\<rparr>)"
  by (simp add: download_def sample_server_def ready_job_def existsSync_def)

section \<open>The sweep\<close>



section \<open>Failures of the metadata fetch\<close>

text \<open>
  C8, as the code has it. Let the probe process write its output in chunks that all arrive
  before the 30-second timer fires; until its close event or the timer the promise is
  pending. When the process closes before the timer, the close handler settles the promise
  and nothing later changes it (there is no second attempt): with an exit code other than 0
  (or none) it is rejected with a message that carries the trimmed text of all stderr
  chunks; with exit code 0 the trimmed text of all stdout chunks goes to \<^verbatim>\<open>JSON.parse\<close>,
  and the promise is rejected when that throws or returns \<^verbatim>\<open>null\<close> and resolved with the
  object of lines 91-97 for every other parsed value, whether it is a record or not. So
  after a close in time the promise is rejected exactly when the exit code is not 0 or the
  trimmed output is rejected by the parser or parses to \<^verbatim>\<open>null\<close>. When the process has not
  closed by the time the timer fires, the promise is rejected with the text of the timeout
  and the process is killed, whatever arrives afterwards. The timer is set to 30 seconds.
  The prepare handler answers every rejection with status 500 and the message, and leaves
  the server as it is.
\<close>

theorem metadata_fetch_outcome:
  assumes "\<forall>te \<in> set pre. is_data (snd te) \<and> fst te < metadata_timeout_ms"
  shows "f_promise (getVideoMetadata parse (map snd pre)) = Pending \<and>
         (\<forall>tc code later. tc < metadata_timeout_ms \<longrightarrow>
            f_promise (getVideoMetadata parse (fetch_schedule (pre @ (tc, FClose code) # later))) =
              (if code = Some 0 then
                 (case parse (trim (stdout_text (map snd pre))) of
                    None \<Rightarrow> Rejected ''Failed to parse video metadata''
                  | Some md \<Rightarrow>
                      (case normalize_metadata md of
                         None \<Rightarrow> Rejected ''Failed to parse video metadata''
                       | Some m \<Rightarrow> Resolved m))
               else Rejected (''Failed to fetch metadata: '' @ trim (stderr_text (map snd pre))))) \<and>
         (\<forall>tc code later. tc < metadata_timeout_ms \<longrightarrow>
            ((\<exists>msg. f_promise (getVideoMetadata parse
                        (fetch_schedule (pre @ (tc, FClose code) # later))) = Rejected msg) \<longleftrightarrow>
             (code \<noteq> Some 0 \<or> parse (trim (stdout_text (map snd pre))) = None \<or>
              parse (trim (stdout_text (map snd pre))) = Some JNull))) \<and>
         (\<forall>later. (\<forall>te \<in> set later. metadata_timeout_ms \<le> fst te) \<longrightarrow>
            f_promise (getVideoMetadata parse (fetch_schedule (pre @ later))) =
              Rejected ''Metadata fetch timeout'' \<and>
            f_killed (getVideoMetadata parse (fetch_schedule (pre @ later)))) \<and>
         metadata_timeout_ms = 30 * 1000 \<and>
         (\<forall>es msg ref. f_promise (getVideoMetadata parse es) = Rejected msg \<longrightarrow>
            ref \<noteq> [] \<longrightarrow> isValidYouTubeUrl ref \<longrightarrow>
            prepare parse (Some ref) es jobId now srv =
              (Some (ErrorJson 500 (''Failed to prepare conversion: '' @ msg)), srv))"
proof -
  from assms have data: "\<forall>e \<in> set (map snd pre). is_data e" by simp
  have nd: "\<not> is_data FTimeout" by simp
  have c1: "f_promise (getVideoMetadata parse (map snd pre)) = Pending"
    by (rule getVideoMetadata_first(1) [OF data nd])
  note closed = fetch_closed_in_time [OF assms, of _ parse]
  have c2: "\<forall>tc code later. tc < metadata_timeout_ms \<longrightarrow>
            f_promise (getVideoMetadata parse (fetch_schedule (pre @ (tc, FClose code) # later))) =
              (if code = Some 0 then
                 (case parse (trim (stdout_text (map snd pre))) of
                    None \<Rightarrow> Rejected ''Failed to parse video metadata''
                  | Some md \<Rightarrow>
                      (case normalize_metadata md of
                         None \<Rightarrow> Rejected ''Failed to parse video metadata''
                       | Some m \<Rightarrow> Resolved m))
               else Rejected (''Failed to fetch metadata: '' @ trim (stderr_text (map snd pre))))"
    using closed by blast
  have iff: "(\<exists>msg. f_promise (getVideoMetadata parse
                        (fetch_schedule (pre @ (tc, FClose code) # later))) = Rejected msg) \<longleftrightarrow>
             (code \<noteq> Some 0 \<or> parse (trim (stdout_text (map snd pre))) = None \<or>
              parse (trim (stdout_text (map snd pre))) = Some JNull)"
    if tc: "tc < metadata_timeout_ms" for tc code later
  proof (cases "code = Some 0")
    case False
    then show ?thesis unfolding closed [OF tc] by simp
  next
    case True
    show ?thesis
    proof (cases "parse (trim (stdout_text (map snd pre)))")
      case None
      with True show ?thesis unfolding closed [OF tc] by simp
    next
      case (Some md)
      show ?thesis
      proof (cases "normalize_metadata md")
        case None
        then have "md = JNull" by (simp add: normalize_metadata_none)
        with None Some True show ?thesis unfolding closed [OF tc] by simp
      next
        case m: (Some m)
        then have "md \<noteq> JNull" using normalize_metadata_none [of md] by auto
        with m Some True show ?thesis unfolding closed [OF tc] by simp
      qed
    qed
  qed
  have c3: "\<forall>tc code later. tc < metadata_timeout_ms \<longrightarrow>
            ((\<exists>msg. f_promise (getVideoMetadata parse
                        (fetch_schedule (pre @ (tc, FClose code) # later))) = Rejected msg) \<longleftrightarrow>
             (code \<noteq> Some 0 \<or> parse (trim (stdout_text (map snd pre))) = None \<or>
              parse (trim (stdout_text (map snd pre))) = Some JNull))"
    using iff by blast
  have c4: "\<forall>later. (\<forall>te \<in> set later. metadata_timeout_ms \<le> fst te) \<longrightarrow>
            f_promise (getVideoMetadata parse (fetch_schedule (pre @ later))) =
              Rejected ''Metadata fetch timeout'' \<and>
            f_killed (getVideoMetadata parse (fetch_schedule (pre @ later)))"
    using fetch_timer_fires [OF assms, of _ parse] by blast
  have c5: "metadata_timeout_ms = 30 * 1000"
    by (simp add: metadata_timeout_ms_def)
  have surfaced: "prepare parse (Some ref) es jobId now srv =
      (Some (ErrorJson 500 (''Failed to prepare conversion: '' @ msg)), srv)"
    if "f_promise (getVideoMetadata parse es) = Rejected msg" "ref \<noteq> []" "isValidYouTubeUrl ref"
    for es msg ref
    using that by (simp add: prepare_def)
  have c6: "\<forall>es msg ref. f_promise (getVideoMetadata parse es) = Rejected msg \<longrightarrow>
            ref \<noteq> [] \<longrightarrow> isValidYouTubeUrl ref \<longrightarrow>
            prepare parse (Some ref) es jobId now srv =
              (Some (ErrorJson 500 (''Failed to prepare conversion: '' @ msg)), srv)"
    using surfaced by blast
  show ?thesis
    by (rule conjI [OF c1 conjI [OF c2 conjI [OF c3 conjI [OF c4 conjI [OF c5 c6]]]]])
qed

theorem metadata_fetch_outcome_witness:
  "f_promise (getVideoMetadata sample_parse
     (fetch_schedule ([(100, FStdout ([CHR 0xEF, CHR 0xBB, CHR 0xBF] @ ''{\"title\":'')),
                       (150, FStderr ''WARNING: slow''),
                       (200, FStdout (''\"Clip\"}'' @ [CHR 0xC2, CHR 0xA0, CHR 10]))] @
                      (29999, FClose (Some 0)) # []))) =
     Resolved \<lparr>title = JStr ''Clip'', thumbnail = JNull, duration = JNull,
               uploader = JStr ''Unknown'', view_count = JNull\<rparr> \<and>
   f_promise (getVideoMetadata sample_parse
     (fetch_schedule ([(100, FStdout ([CHR 0xEF, CHR 0xBB, CHR 0xBF] @ ''{\"title\":'')),
                       (150, FStderr ''WARNING: slow''),
                       (200, FStdout (''\"Clip\"}'' @ [CHR 0xC2, CHR 0xA0, CHR 10]))] @
                      [(30000, FClose (Some 0))]))) =
     Rejected ''Metadata fetch timeout'' \<and>
   f_promise (getVideoMetadata sample_parse
     (fetch_schedule ([(100, FStderr ''ERROR: Video ''), (120, FStderr (''unavailable'' @ [CHR 10]))] @
                      (500, FClose (Some 1)) # []))) =
     Rejected ''Failed to fetch metadata: ERROR: Video unavailable'' \<and>
   f_promise (getVideoMetadata sample_parse
     (fetch_schedule ([(100, FStdout ''not json'')] @ (500, FClose (Some 0)) # []))) =
     Rejected ''Failed to parse video metadata'' \<and>
   f_promise (getVideoMetadata sample_parse
     (fetch_schedule ([(100, FStdout ''null'')] @ (500, FClose (Some 0)) # []))) =
     Rejected ''Failed to parse video metadata''"
proof -
  let ?pre = "[(100, FStdout ([CHR 0xEF, CHR 0xBB, CHR 0xBF] @ ''{\"title\":'')),
               (150, FStderr ''WARNING: slow''),
               (200, FStdout (''\"Clip\"}'' @ [CHR 0xC2, CHR 0xA0, CHR 10]))]"
  have a: "\<forall>te \<in> set ?pre. is_data (snd te) \<and> fst te < metadata_timeout_ms"
    by (simp add: metadata_timeout_ms_def)
  have t1: "(29999::nat) < metadata_timeout_ms" by (simp add: metadata_timeout_ms_def)
  have t2: "(500::nat) < metadata_timeout_ms" by (simp add: metadata_timeout_ms_def)
  have out: "trim (stdout_text (map snd ?pre)) = ''{\"title\":\"Clip\"}''"
    by (simp add: trim_eval)
  have md: "normalize_metadata (JObj [(''title'', JStr ''Clip'')]) =
      Some \<lparr>title = JStr ''Clip'', thumbnail = JNull, duration = JNull,
             uploader = JStr ''Unknown'', view_count = JNull\<rparr>"
    by (simp add: normalize_metadata_def js_or_def first_thumbnail_url_def)
  from metadata_fetch_outcome [OF a, of sample_parse,
      THEN conjunct2, THEN conjunct1, rule_format, OF t1, of "Some 0" "[]"]
  have r1: "f_promise (getVideoMetadata sample_parse
      (fetch_schedule (?pre @ (29999, FClose (Some 0)) # []))) =
     Resolved \<lparr>title = JStr ''Clip'', thumbnail = JNull, duration = JNull,
               uploader = JStr ''Unknown'', view_count = JNull\<rparr>"
    unfolding out by (simp add: sample_parse_def md)
  have late: "metadata_timeout_ms \<le> fst te" if "te \<in> set [(30000::nat, FClose (Some 0))]" for te
    using that by (simp add: metadata_timeout_ms_def)
  from metadata_fetch_outcome [OF a, of sample_parse,
      THEN conjunct2, THEN conjunct2, THEN conjunct2, THEN conjunct1, rule_format, OF late]
  have r2: "f_promise (getVideoMetadata sample_parse
      (fetch_schedule (?pre @ [(30000, FClose (Some 0))]))) = Rejected ''Metadata fetch timeout''"
    by (rule conjunct1)
  have b: "\<forall>te \<in> set [(100::nat, FStderr ''ERROR: Video ''), (120, FStderr (''unavailable'' @ [CHR 10]))].
      is_data (snd te) \<and> fst te < metadata_timeout_ms"
    by (simp add: metadata_timeout_ms_def)
  have err: "trim (stderr_text (map snd
      [(100::nat, FStderr ''ERROR: Video ''), (120, FStderr (''unavailable'' @ [CHR 10]))])) =
      ''ERROR: Video unavailable''"
    by (simp add: trim_eval)
  from metadata_fetch_outcome [OF b, of sample_parse,
      THEN conjunct2, THEN conjunct1, rule_format, OF t2, of "Some 1" "[]"]
  have r3: "f_promise (getVideoMetadata sample_parse
      (fetch_schedule ([(100, FStderr ''ERROR: Video ''), (120, FStderr (''unavailable'' @ [CHR 10]))] @
                      (500, FClose (Some 1)) # []))) =
     Rejected ''Failed to fetch metadata: ERROR: Video unavailable''"
    unfolding err by simp
  have c: "\<forall>te \<in> set [(100::nat, FStdout ''not json'')].
      is_data (snd te) \<and> fst te < metadata_timeout_ms"
    by (simp add: metadata_timeout_ms_def)
  have nj: "trim (stdout_text (map snd [(100::nat, FStdout ''not json'')])) = ''not json''"
    by (simp add: trim_eval)
  from metadata_fetch_outcome [OF c, of sample_parse,
      THEN conjunct2, THEN conjunct1, rule_format, OF t2, of "Some 0" "[]"]
  have r4: "f_promise (getVideoMetadata sample_parse
      (fetch_schedule ([(100, FStdout ''not json'')] @ (500, FClose (Some 0)) # []))) =
     Rejected ''Failed to parse video metadata''"
    unfolding nj by (simp add: sample_parse_def)
  have d: "\<forall>te \<in> set [(100::nat, FStdout ''null'')].
      is_data (snd te) \<and> fst te < metadata_timeout_ms"
    by (simp add: metadata_timeout_ms_def)
  have nl: "trim (stdout_text (map snd [(100::nat, FStdout ''null'')])) = ''null''"
    by (simp add: trim_eval)
  from metadata_fetch_outcome [OF d, of sample_parse,
      THEN conjunct2, THEN conjunct1, rule_format, OF t2, of "Some 0" "[]"]
  have r5: "f_promise (getVideoMetadata sample_parse
      (fetch_schedule ([(100, FStdout ''null'')] @ (500, FClose (Some 0)) # []))) =
     Rejected ''Failed to parse video metadata''"
    unfolding nl by (simp add: sample_parse_def normalize_metadata_def)
  from r1 r2 r3 r4 r5 show ?thesis by (intro conjI)
qed

text \<open>
  Output that is valid JSON and not a record does not make the fetch fail: the probe prints
  \<^verbatim>\<open>42\<close> and exits with code 0, \<^verbatim>\<open>JSON.parse\<close> returns the number, every property read
  of lines 91-97 is undefined, and the promise is resolved with the default values.
\<close>

theorem non_record_output_resolves:
  "sample_parse (trim (stdout_text [FStdout (''42'' @ [CHR 10])])) = Some (JNum 42) \<and>
   f_promise (getVideoMetadata sample_parse
     (fetch_schedule [(100, FStdout (''42'' @ [CHR 10])), (500, FClose (Some 0))])) =
     Resolved \<lparr>title = JStr ''Unknown Title'', thumbnail = JNull, duration = JNull,
               uploader = JStr ''Unknown'', view_count = JNull\<rparr>"
  by (simp add: trim_eval sample_parse_def getVideoMetadata_def fetch_init_def
        fetch_close_def fetch_timeout_def settle_def metadata_timeout_ms_def normalize_metadata_def js_or_def
        first_thumbnail_url_def)

section \<open>Failed prepare requests\<close>

text \<open>
  C9. A prepare request that is answered with an error leaves the server unchanged, and the
  error comes from a missing, empty or invalid URL or from a rejected metadata promise. The
  server changes only when the metadata promise resolved, and then by one entry under the
  new id that carries the resolved metadata. So when every entry of the registry has
  populated metadata before the request, every entry has it afterwards. The other writers
  of the registry keep this too: the callbacks of a conversion store the job with the
  metadata it had, and the deferred deletion and the sweep only remove entries.
\<close>

theorem prepare_failure_keeps_registry:
  "(\<forall>code msg srv'. prepare parse u es jobId now srv = (Some (ErrorJson code msg), srv') \<longrightarrow>
      srv' = srv \<and>
      (u = None \<or> u = Some [] \<or> (\<exists>ref. u = Some ref \<and> \<not> isValidYouTubeUrl ref) \<or>
       (\<exists>m. f_promise (getVideoMetadata parse es) = Rejected m))) \<and>
   (\<forall>srv'. prepare parse u es jobId now srv = (None, srv') \<longrightarrow> srv' = srv) \<and>
   (\<forall>r srv'. prepare parse u es jobId now srv = (r, srv') \<longrightarrow> srv' \<noteq> srv \<longrightarrow>
      (\<exists>ref md. u = Some ref \<and> isValidYouTubeUrl ref \<and>
         f_promise (getVideoMetadata parse es) = Resolved md \<and> populated md \<and>
         r = Some (PrepareOk jobId md) \<and>
         srv' = srv\<lparr>srv_jobs := AList.update jobId (new_job jobId ref md now) (srv_jobs srv)\<rparr>)) \<and>
   ((\<forall>e \<in> set (srv_jobs srv). populated (metadata (snd e))) \<longrightarrow>
      (\<forall>e \<in> set (srv_jobs (snd (prepare parse u es jobId now srv))).
         populated (metadata (snd e)))) \<and>
   (\<forall>env reg s0. performConversion_start env reg = Inr s0 \<longrightarrow>
      (\<forall>x \<in> set reg. populated (metadata (snd x))) \<longrightarrow>
      populated (metadata (job s0)) \<and>
      (\<forall>x \<in> set (jobs s0). populated (metadata (snd x)))) \<and>
   (\<forall>env s ev. populated (metadata (job s)) \<longrightarrow>
      (\<forall>x \<in> set (jobs s). populated (metadata (snd x))) \<longrightarrow>
      populated (metadata (job (step env s ev))) \<and>
      (\<forall>x \<in> set (jobs (step env s ev)). populated (metadata (snd x)))) \<and>
   (\<forall>k q. \<forall>x \<in> set (srv_jobs (download_cleanup k q srv)). x \<in> set (srv_jobs srv)) \<and>
   (\<forall>maxAge t. \<forall>x \<in> set (srv_jobs (fst (sweep maxAge t srv))). x \<in> set (srv_jobs srv))"
proof -
  have err: "srv' = srv \<and>
      (u = None \<or> u = Some [] \<or> (\<exists>ref. u = Some ref \<and> \<not> isValidYouTubeUrl ref) \<or>
       (\<exists>m. f_promise (getVideoMetadata parse es) = Rejected m))"
    if "prepare parse u es jobId now srv = (Some (ErrorJson code msg), srv')" for code msg srv'
    using that
    by (auto simp: prepare_def split: option.splits if_splits promise.splits)
  have hang: "srv' = srv" if "prepare parse u es jobId now srv = (None, srv')" for srv'
    using that
    by (auto simp: prepare_def split: option.splits if_splits promise.splits)
  have changed: "\<exists>ref md. u = Some ref \<and> isValidYouTubeUrl ref \<and>
         f_promise (getVideoMetadata parse es) = Resolved md \<and> populated md \<and>
         r = Some (PrepareOk jobId md) \<and>
         srv' = srv\<lparr>srv_jobs := AList.update jobId (new_job jobId ref md now) (srv_jobs srv)\<rparr>"
    if "prepare parse u es jobId now srv = (r, srv')" "srv' \<noteq> srv" for r srv'
    using that getVideoMetadata_populated [of parse es]
    by (auto simp: prepare_def split: option.splits if_splits promise.splits)
  have inv: "\<forall>e \<in> set (srv_jobs (snd (prepare parse u es jobId now srv))).
         populated (metadata (snd e))"
    if all: "\<forall>e \<in> set (srv_jobs srv). populated (metadata (snd e))"
  proof (cases "snd (prepare parse u es jobId now srv) = srv")
    case True
    with all show ?thesis by simp
  next
    case False
    with changed [of "fst (prepare parse u es jobId now srv)" "snd (prepare parse u es jobId now srv)"]
    obtain ref md where md: "populated md"
      and s: "snd (prepare parse u es jobId now srv) =
        srv\<lparr>srv_jobs := AList.update jobId (new_job jobId ref md now) (srv_jobs srv)\<rparr>"
      by auto
    show ?thesis
    proof
      fix e assume "e \<in> set (srv_jobs (snd (prepare parse u es jobId now srv)))"
      with s have "e = (jobId, new_job jobId ref md now) \<or> e \<in> set (srv_jobs srv)"
        by (simp add: set_update_cases)
      with md all show "populated (metadata (snd e))"
        by (auto simp: new_job_def)
    qed
  qed
  have del: "\<forall>x \<in> set (srv_jobs (download_cleanup k q srv)). x \<in> set (srv_jobs srv)" for k q
    by (simp add: download_cleanup_def AList.delete_eq)
  have swp: "\<forall>x \<in> set (srv_jobs (fst (sweep maxAge t srv))). x \<in> set (srv_jobs srv)"
    for maxAge t
    by (simp add: sweep_def sweep_loop_jobs)
  have conv: "populated (metadata (job s0)) \<and>
      (\<forall>x \<in> set (jobs s0). populated (metadata (snd x)))"
    if "performConversion_start env reg = Inr s0"
       "\<forall>x \<in> set reg. populated (metadata (snd x))" for env reg s0
    using that by (rule start_populated)
  have stp: "populated (metadata (job (step env s ev))) \<and>
      (\<forall>x \<in> set (jobs (step env s ev)). populated (metadata (snd x)))"
    if "populated (metadata (job s))" "\<forall>x \<in> set (jobs s). populated (metadata (snd x))"
    for env s ev
    using that by (rule step_populated)
  have first: "(\<forall>code msg srv'. prepare parse u es jobId now srv = (Some (ErrorJson code msg), srv') \<longrightarrow>
      srv' = srv \<and>
      (u = None \<or> u = Some [] \<or> (\<exists>ref. u = Some ref \<and> \<not> isValidYouTubeUrl ref) \<or>
       (\<exists>m. f_promise (getVideoMetadata parse es) = Rejected m)))"
    using err by blast
  have second: "\<forall>srv'. prepare parse u es jobId now srv = (None, srv') \<longrightarrow> srv' = srv"
    using hang by blast
  have third: "\<forall>r srv'. prepare parse u es jobId now srv = (r, srv') \<longrightarrow> srv' \<noteq> srv \<longrightarrow>
      (\<exists>ref md. u = Some ref \<and> isValidYouTubeUrl ref \<and>
         f_promise (getVideoMetadata parse es) = Resolved md \<and> populated md \<and>
         r = Some (PrepareOk jobId md) \<and>
         srv' = srv\<lparr>srv_jobs := AList.update jobId (new_job jobId ref md now) (srv_jobs srv)\<rparr>)"
    using changed by blast
  have fourth: "(\<forall>e \<in> set (srv_jobs srv). populated (metadata (snd e))) \<longrightarrow>
      (\<forall>e \<in> set (srv_jobs (snd (prepare parse u es jobId now srv))).
         populated (metadata (snd e)))"
    using inv by blast
  have fifth: "\<forall>env reg s0. performConversion_start env reg = Inr s0 \<longrightarrow>
      (\<forall>x \<in> set reg. populated (metadata (snd x))) \<longrightarrow>
      populated (metadata (job s0)) \<and>
      (\<forall>x \<in> set (jobs s0). populated (metadata (snd x)))"
    using conv by blast
  have sixth: "\<forall>env s ev. populated (metadata (job s)) \<longrightarrow>
      (\<forall>x \<in> set (jobs s). populated (metadata (snd x))) \<longrightarrow>
      populated (metadata (job (step env s ev))) \<and>
      (\<forall>x \<in> set (jobs (step env s ev)). populated (metadata (snd x)))"
    using stp by blast
  have seventh: "\<forall>k q. \<forall>x \<in> set (srv_jobs (download_cleanup k q srv)). x \<in> set (srv_jobs srv)"
    using del by (intro allI)
  have eighth: "\<forall>maxAge t. \<forall>x \<in> set (srv_jobs (fst (sweep maxAge t srv))).
      x \<in> set (srv_jobs srv)"
    using swp by (intro allI)
  show ?thesis
    by (rule conjI [OF first conjI [OF second conjI [OF third conjI [OF fourth
          conjI [OF fifth conjI [OF sixth conjI [OF seventh eighth]]]]]]])
qed

theorem prepare_failure_keeps_registry_witness:
  "fst (prepare (\<lambda>s. None) (Some ''ftp://youtu.be/abc'') [] ''j3'' 5 sample_server) =
     Some (ErrorJson 400 ''Please provide a valid YouTube URL'') \<and>
   snd (prepare (\<lambda>s. None) (Some ''ftp://youtu.be/abc'') [] ''j3'' 5 sample_server) =
     sample_server \<and>
   isValidYouTubeUrl ''https://youtu.be/abc'' \<and>
   fst (prepare (\<lambda>s. None) (Some ''https://youtu.be/abc'') [FClose (Some 1), FTimeout] ''j3'' 5
       sample_server) =
     Some (ErrorJson 500 ''Failed to prepare conversion: Failed to fetch metadata: '') \<and>
   snd (prepare (\<lambda>s. None) (Some ''https://youtu.be/abc'') [FClose (Some 1), FTimeout] ''j3'' 5
       sample_server) = sample_server"
proof -
  have valid: "isValidYouTubeUrl ''https://youtu.be/abc''"
    and invalid: "\<not> isValidYouTubeUrl ''ftp://youtu.be/abc''"
    by (simp_all add: isValidYouTubeUrl_def strip_prefix_def optional_prefix_def is_word_def)
  have p1: "fst (prepare (\<lambda>s. None) (Some ''ftp://youtu.be/abc'') [] ''j3'' 5 sample_server) =
     Some (ErrorJson 400 ''Please provide a valid YouTube URL'')"
    using invalid by (simp add: prepare_def)
  have rej: "f_promise (getVideoMetadata (\<lambda>s. None) [FClose (Some 1), FTimeout]) =
      Rejected ''Failed to fetch metadata: ''"
    by (simp add: getVideoMetadata_def fetch_init_def fetch_close_def fetch_timeout_def
          settle_def trim_eval)
  have p2: "fst (prepare (\<lambda>s. None) (Some ''https://youtu.be/abc'') [FClose (Some 1), FTimeout]
       ''j3'' 5 sample_server) =
     Some (ErrorJson 500 ''Failed to prepare conversion: Failed to fetch metadata: '')"
    using valid rej by (simp add: prepare_def)
  have s1: "snd (prepare (\<lambda>s. None) (Some ''ftp://youtu.be/abc'') [] ''j3'' 5 sample_server) =
     sample_server"
    using prepare_failure_keeps_registry [of "\<lambda>s. None" "Some ''ftp://youtu.be/abc''" "[]"
      "''j3''" 5 sample_server, THEN conjunct1, rule_format,
      OF prod.collapse [symmetric, THEN trans], OF arg_cong2 [of _ _ _ _ Pair, OF p1 refl]]
    by (rule conjunct1)
  have s2: "snd (prepare (\<lambda>s. None) (Some ''https://youtu.be/abc'') [FClose (Some 1), FTimeout]
       ''j3'' 5 sample_server) = sample_server"
    using prepare_failure_keeps_registry [of "\<lambda>s. None" "Some ''https://youtu.be/abc''"
      "[FClose (Some 1), FTimeout]" "''j3''" 5 sample_server, THEN conjunct1, rule_format,
      OF prod.collapse [symmetric, THEN trans], OF arg_cong2 [of _ _ _ _ Pair, OF p2 refl]]
    by (rule conjunct1)
  from p1 s1 valid p2 s2 show ?thesis by (intro conjI)
qed

section \<open>The download phase\<close>

text \<open>
  C10. During one conversion, a job whose status is Downloading has progress at most 70;
  the progress is at most 70, or 80, or 100, so no value strictly between 80 and 100 occurs;
  and a callback other than the close handler that takes the progress from at most 70 to
  above 70 is the stderr handler on a chunk with the download marker and \<^verbatim>\<open>100%\<close>, which
  leaves the status Converting and the progress 80.
\<close>

theorem download_phase_bound:
  assumes "performConversion_start env reg = Inr s0" and "wf_trace False (es @ [e])"
  shows "status (job s0) = DOWNLOADING \<and> progress (job s0) = 10 \<and>
         (status (job (run env s0 (es @ [e]))) = DOWNLOADING \<longrightarrow>
            progress (job (run env s0 (es @ [e]))) \<le> 70) \<and>
         (progress (job (run env s0 (es @ [e]))) \<le> 70 \<or>
          progress (job (run env s0 (es @ [e]))) = 80 \<or>
          progress (job (run env s0 (es @ [e]))) = 100) \<and>
         \<not> (80 < progress (job (run env s0 (es @ [e]))) \<and>
            progress (job (run env s0 (es @ [e]))) < 100) \<and>
         (progress (job (run env s0 es)) \<le> 70 \<longrightarrow>
          70 < progress (job (run env s0 (es @ [e]))) \<longrightarrow> (\<forall>c. e \<noteq> Close c) \<longrightarrow>
            (\<exists>out. e = Stderr out \<and> includes_str out ''[download]'' \<and>
                   includes_str out ''100%'') \<and>
            status (job (run env s0 (es @ [e]))) = CONVERTING \<and>
            progress (job (run env s0 (es @ [e]))) = 80)"
proof -
  from assms(1) have start: "status (job s0) = DOWNLOADING \<and> progress (job s0) = 10"
    by (cases "map_of reg (env_jobId env)")
       (auto simp: performConversion_start_def Let_def)
  from assms(1) have "pre_close (job s0)" by (rule pre_close_start)
  with assms(2) have "step_ok (job (run env s0 es)) e (job (step env (run env s0 es) e))"
    by (rule trace_step)
  then have ok: "step_ok (job (run env s0 es)) e (job (run env s0 (es @ [e])))"
    by (simp only: run_snoc)
  let ?b = "progress (job (run env s0 (es @ [e])))"
  from ok have three: "?b \<le> 70 \<or> ?b = 80 \<or> ?b = 100"
    unfolding step_ok_def by blast
  then have gap: "\<not> (80 < ?b \<and> ?b < 100)" by auto
  from ok start three gap show ?thesis unfolding step_ok_def by blast
qed

theorem download_phase_bound_witness:
  "performConversion_start sample_env [(''j1'', sample_job)] = Inr sample_start \<and>
   wf_trace False ([Stderr ''[download] 45.2%''] @ [Stderr ''[download] 100% of 3.00MiB'']) \<and>
   progress (job (run sample_env sample_start [Stderr ''[download] 45.2%''])) = 8866461766385663 / 2 ^ 48 \<and>
   status (job (run sample_env sample_start [Stderr ''[download] 45.2%''])) = DOWNLOADING \<and>
   status (job (run sample_env sample_start
     ([Stderr ''[download] 45.2%''] @ [Stderr ''[download] 100% of 3.00MiB'']))) = CONVERTING \<and>
   progress (job (run sample_env sample_start
     ([Stderr ''[download] 45.2%''] @ [Stderr ''[download] 100% of 3.00MiB'']))) = 80"
proof -
  have h1: "performConversion_start sample_env [(''j1'', sample_job)] = Inr sample_start"
    by (simp add: performConversion_start_def sample_defs Let_def)
  have h2: "wf_trace False
      ([Stderr ''[download] 45.2%''] @ [Stderr ''[download] 100% of 3.00MiB''])"
    by simp
  have a: "progress (job (run sample_env sample_start [Stderr ''[download] 45.2%''])) = 8866461766385663 / 2 ^ 48"
    and a': "status (job (run sample_env sample_start [Stderr ''[download] 45.2%''])) = DOWNLOADING"
    by (simp_all add: sample_defs handler_defs)
  have b: "70 < progress (job (run sample_env sample_start
      ([Stderr ''[download] 45.2%''] @ [Stderr ''[download] 100% of 3.00MiB''])))"
    by (simp add: sample_defs handler_defs)
  from a have le: "progress (job (run sample_env sample_start [Stderr ''[download] 45.2%''])) \<le> 70"
    by simp
  from download_phase_bound [OF h1 h2] le b
  have "status (job (run sample_env sample_start
     ([Stderr ''[download] 45.2%''] @ [Stderr ''[download] 100% of 3.00MiB'']))) = CONVERTING \<and>
   progress (job (run sample_env sample_start
     ([Stderr ''[download] 45.2%''] @ [Stderr ''[download] 100% of 3.00MiB'']))) = 80"
    by blast
  with h1 h2 a a' show ?thesis by blast
qed

end
